theory Spec2Isabelle
  imports Complex_Main
begin

section \<open>Numbers and exceptions\<close>

text \<open>
  A Python float is modelled as an exact real number or positive infinity
  (\<^verbatim>\<open>float("inf")\<close>, the marker of an open-ended tier). Rounding, NaN and
  negative infinity are outside the model. The order is the numeric one, with
  infinity on top.
\<close>

datatype pyfloat = Fin real | PInf

instantiation pyfloat :: linorder
begin

fun less_eq_pyfloat :: "pyfloat \<Rightarrow> pyfloat \<Rightarrow> bool" where
  "less_eq_pyfloat (Fin a) (Fin b) = (a \<le> b)"
| "less_eq_pyfloat x PInf = True"
| "less_eq_pyfloat PInf (Fin b) = False"

definition less_pyfloat :: "pyfloat \<Rightarrow> pyfloat \<Rightarrow> bool" where
  "less_pyfloat x y = (x \<le> y \<and> \<not> y \<le> x)"

instance
proof
  fix x y z :: pyfloat
  show "(x < y) = (x \<le> y \<and> \<not> y \<le> x)"
    by (simp add: less_pyfloat_def)
  show "x \<le> x"
    by (cases x) simp_all
  show "x \<le> y \<Longrightarrow> y \<le> z \<Longrightarrow> x \<le> z"
    by (cases x; cases y; cases z) simp_all
  show "x \<le> y \<Longrightarrow> y \<le> x \<Longrightarrow> x = y"
    by (cases x; cases y) simp_all
  show "x \<le> y \<or> y \<le> x"
    by (cases x; cases y) auto
qed

end

text \<open>
  An exception that propagates is a value, the class of the exception; a function
  that can raise returns \<open>exn + 'a\<close>, with \<open>Inl\<close> for the exception. The text of
  its message is carried only where the code reads it (\<^verbatim>\<open>str(e)\<close> on what the
  Pricing API client raises).
\<close>

datatype exn =
  AttributeError | TypeError | ValueError | KeyError | ZeroDivisionError | OverflowError
  | NoCredentialsError | ClientError | OtherException

section \<open>cost_engine.py\<close>

record TierBand =
  from_gb :: real
  to_gb :: pyfloat
  rate_per_gb_month :: real

definition cost_from_flat_rate :: "real \<Rightarrow> real \<Rightarrow> real" where
  "cost_from_flat_rate gb rate = gb * rate"

text \<open>
  The body of the \<^verbatim>\<open>for band in tiers\<close> loop of \<^verbatim>\<open>cost_from_tiers\<close>, with the
  loop variables \<^verbatim>\<open>total\<close> (here \<open>tot\<close>) and \<^verbatim>\<open>remaining\<close> as arguments. Python's
  \<^verbatim>\<open>min(a, b)\<close> is \<open>b\<close> when \<open>b < a\<close> and \<open>a\<close> otherwise.
\<close>

definition py_min :: "real \<Rightarrow> real \<Rightarrow> real" where
  "py_min a b = (if b < a then b else a)"

fun cost_from_tiers_loop :: "real \<Rightarrow> real \<Rightarrow> TierBand list \<Rightarrow> real" where
  "cost_from_tiers_loop tot remaining [] = tot"
| "cost_from_tiers_loop tot remaining (band # rest) =
     (if remaining \<le> 0 then tot
      else
        let band_size =
              py_min remaining
                (case to_gb band of
                   Fin t \<Rightarrow> t - from_gb band
                 | PInf \<Rightarrow> remaining);
            tot' =
              (if band_size > 0
               then tot + band_size * TierBand.rate_per_gb_month band
               else tot)
        in cost_from_tiers_loop tot' (remaining - band_size) rest)"

definition cost_from_tiers :: "real \<Rightarrow> TierBand list \<Rightarrow> real" where
  "cost_from_tiers gb tiers = cost_from_tiers_loop 0 gb tiers"

definition delta_usd :: "real \<Rightarrow> real \<Rightarrow> real" where
  "delta_usd cost reference = cost - reference"

subsection \<open>delta_pct, on floats with infinities and NaN\<close>

text \<open>
  \<^verbatim>\<open>delta_pct\<close> is modelled on floats that can overflow: a float is a finite
  number, an infinity or NaN. An operation on finite operands yields the exact
  result when that lies inside the range of a double, and the infinity of its
  sign when it reaches \<open>2 ^ 1024 - 2 ^ 970\<close> in magnitude, from where IEEE 754
  rounds to infinity. Rounding inside the range, underflow and the sign of zero
  are not modelled.
\<close>

datatype float64 = Finite real | PosInf | NegInf | NaN









subsection \<open>The tiered cost as the specification words it\<close>

text \<open>
  The width of a band: unbounded (as much as remains) for an open-ended band,
  \<open>to_gb - from_gb\<close> otherwise.
\<close>

definition band_width :: "real \<Rightarrow> TierBand \<Rightarrow> real" where
  "band_width remaining band =
     (case to_gb band of Fin t \<Rightarrow> t - from_gb band | PInf \<Rightarrow> remaining)"

text \<open>
  The specification's tiered cost: each band bills \<open>min remaining width\<close> at the
  band's rate, and the walk stops once nothing remains.
\<close>

fun tiered_cost_spec :: "real \<Rightarrow> TierBand list \<Rightarrow> real" where
  "tiered_cost_spec remaining [] = 0"
| "tiered_cost_spec remaining (band # rest) =
     (if remaining \<le> 0 then 0
      else
        min remaining (band_width remaining band) * TierBand.rate_per_gb_month band
        + tiered_cost_spec (remaining - min remaining (band_width remaining band)) rest)"

text \<open>A band is well formed when its upper bound is not below its lower bound.\<close>

definition band_well_formed :: "TierBand \<Rightarrow> bool" where
  "band_well_formed band = (Fin (from_gb band) \<le> to_gb band)"


section \<open>Python values\<close>

text \<open>
  The price documents are parsed JSON, and the code walks them as dynamically
  typed Python values: a value is \<^verbatim>\<open>None\<close>, a boolean, a number, a string,
  a list or a dictionary. A dictionary is an association list in insertion
  order, looked up by key. \<^verbatim>\<open>None\<close> and JSON's \<^verbatim>\<open>null\<close> are both \<open>JNull\<close>.
\<close>

datatype json =
  JNull | JBool bool | JNum float64 | JStr string | JArr "json list"
  | JObj "(string \<times> json) list"

definition bind_exn :: "exn + 'a \<Rightarrow> ('a \<Rightarrow> exn + 'b) \<Rightarrow> exn + 'b" where
  "bind_exn m f = (case m of Inl e \<Rightarrow> Inl e | Inr x \<Rightarrow> f x)"

text \<open>
  A \<^verbatim>\<open>for\<close> loop whose body may return from the enclosing function: the body
  yields \<open>Some r\<close> to return \<open>r\<close> and \<open>None\<close> to go on with the next element.
\<close>

fun first_some :: "('a \<Rightarrow> exn + 'b option) \<Rightarrow> 'a list \<Rightarrow> exn + 'b option" where
  "first_some f [] = Inr None"
| "first_some f (x # xs) =
     (case f x of
        Inl e \<Rightarrow> Inl e
      | Inr (Some r) \<Rightarrow> Inr (Some r)
      | Inr None \<Rightarrow> first_some f xs)"

text \<open>A \<^verbatim>\<open>for\<close> loop that updates local variables, the state \<open>s\<close>.\<close>

fun fold_exn :: "('a \<Rightarrow> 's \<Rightarrow> exn + 's) \<Rightarrow> 'a list \<Rightarrow> 's \<Rightarrow> exn + 's" where
  "fold_exn f [] s = Inr s"
| "fold_exn f (x # xs) s =
     (case f x s of Inl e \<Rightarrow> Inl e | Inr s' \<Rightarrow> fold_exn f xs s')"

text \<open>Truth value of a Python object, as \<^verbatim>\<open>if x\<close>, \<^verbatim>\<open>not x\<close> and \<^verbatim>\<open>x or y\<close> test it.\<close>

fun truthy :: "json \<Rightarrow> bool" where
  "truthy JNull = False"
| "truthy (JBool b) = b"
| "truthy (JNum x) = (x \<noteq> Finite 0)"
| "truthy (JStr s) = (s \<noteq> [])"
| "truthy (JArr xs) = (xs \<noteq> [])"
| "truthy (JObj kvs) = (kvs \<noteq> [])"

definition py_or :: "json \<Rightarrow> json \<Rightarrow> json" where
  "py_or a b = (if truthy a then a else b)"

text \<open>
  \<^verbatim>\<open>d.get(k)\<close> and \<^verbatim>\<open>d.get(k, default)\<close>: only a dictionary has the method;
  a key that is present with value \<^verbatim>\<open>None\<close> yields \<^verbatim>\<open>None\<close>, not the default.
\<close>

definition dict_get_default :: "json \<Rightarrow> string \<Rightarrow> json \<Rightarrow> exn + json" where
  "dict_get_default d k dflt =
     (case d of
        JObj kvs \<Rightarrow> Inr (case map_of kvs k of Some v \<Rightarrow> v | None \<Rightarrow> dflt)
      | _ \<Rightarrow> Inl AttributeError)"

definition dict_get :: "json \<Rightarrow> string \<Rightarrow> exn + json" where
  "dict_get d k = dict_get_default d k JNull"

definition dict_items :: "json \<Rightarrow> exn + (string \<times> json) list" where
  "dict_items d =
     (case d of
        JObj kvs \<Rightarrow> Inr kvs
      | _ \<Rightarrow> Inl AttributeError)"

text \<open>\<^verbatim>\<open>a.get(k1) or a.get(k2)\<close>: the second lookup only when the first is falsy.\<close>

definition dict_get_or :: "json \<Rightarrow> string \<Rightarrow> string \<Rightarrow> exn + json" where
  "dict_get_or d k1 k2 =
     bind_exn (dict_get d k1) (\<lambda>a. if truthy a then Inr a else dict_get d k2)"

text \<open>A string method (\<^verbatim>\<open>strip\<close>, \<^verbatim>\<open>lower\<close>) exists on strings only.\<close>

definition str_receiver :: "json \<Rightarrow> exn + string" where
  "str_receiver v = (case v of JStr s \<Rightarrow> Inr s | _ \<Rightarrow> Inl AttributeError)"

definition startswith :: "string \<Rightarrow> string \<Rightarrow> bool" where
  "startswith s p = (take (length p) s = p)"

text \<open>\<^verbatim>\<open>sub in s\<close> on strings: \<open>sub\<close> occurs in \<open>s\<close> as a contiguous run.\<close>

fun py_in_str :: "string \<Rightarrow> string \<Rightarrow> bool" where
  "py_in_str sub [] = (sub = [])"
| "py_in_str sub (c # cs) = (startswith (c # cs) sub \<or> py_in_str sub cs)"

text \<open>
  \<^verbatim>\<open>key in container\<close> for a string key: a dictionary tests its keys, a list
  its elements, a string its substrings; \<^verbatim>\<open>None\<close>, a boolean or a number is not
  iterable.
\<close>

definition py_contains :: "json \<Rightarrow> string \<Rightarrow> exn + bool" where
  "py_contains container k =
     (case container of
        JObj kvs \<Rightarrow> Inr (k \<in> set (map fst kvs))
      | JArr xs \<Rightarrow> Inr (JStr k \<in> set xs)
      | JStr s \<Rightarrow> Inr (py_in_str k s)
      | _ \<Rightarrow> Inl TypeError)"

text \<open>\<^verbatim>\<open>container[key]\<close> for a string key: only a dictionary can be indexed by it.\<close>

definition py_getitem :: "json \<Rightarrow> string \<Rightarrow> exn + json" where
  "py_getitem container k =
     (case container of
        JObj kvs \<Rightarrow>
          (case map_of kvs k of
             Some v \<Rightarrow> Inr v
           | None \<Rightarrow> Inl KeyError)
      | _ \<Rightarrow> Inl TypeError)"

text \<open>
  What one resolution call takes from Python and from the outside world:
  \<^item> \<open>http_get url\<close>: the outcome of opening the URL, reading it and decoding the JSON:
    the parsed document, or the message built by the \<^verbatim>\<open>except\<close> clause that
    catches the failure;
  \<^item> \<open>py_float v\<close>: \<^verbatim>\<open>float(v)\<close>, the number or the exception raised;
  \<^item> \<open>py_lower s\<close> and \<open>py_strip s\<close>: \<^verbatim>\<open>s.lower()\<close> and \<^verbatim>\<open>s.strip()\<close>;
  \<^item> \<open>boto3_client\<close>: the outcome of \<^verbatim>\<open>boto3.client("pricing", ...)\<close>, a client or
    the exception raised with its text \<^verbatim>\<open>str(e)\<close>.
  A pricing client answers a paginated \<^verbatim>\<open>get_products\<close> query (service code and
  filters) with an exception and its text, or with its pages, each the list of its
  \<^verbatim>\<open>PriceList\<close> entries; an entry is the JSON it decodes to, or \<open>None\<close> when
  \<^verbatim>\<open>json.loads\<close> rejects it. Strings are UTF-8 byte strings; equality, emptiness,
  prefixes and substrings of such strings are those of the code points.
\<close>

type_synonym pricing_client = "string \<Rightarrow> json \<Rightarrow> (exn \<times> string) + json option list list"

record env =
  http_get :: "string \<Rightarrow> string + json"
  py_float :: "json \<Rightarrow> exn + float64"
  py_lower :: "string \<Rightarrow> string"
  py_strip :: "string \<Rightarrow> string"
  boto3_client :: "(exn \<times> string) + pricing_client"

text \<open>
  Python's \<^verbatim>\<open><\<close> and \<^verbatim>\<open><=\<close> on floats: false whenever an operand is NaN.
\<close>

fun float_le :: "float64 \<Rightarrow> float64 \<Rightarrow> bool" where
  "float_le NaN b = False"
| "float_le a NaN = False"
| "float_le NegInf b = True"
| "float_le a PosInf = True"
| "float_le (Finite x) (Finite y) = (x \<le> y)"
| "float_le (Finite x) NegInf = False"
| "float_le PosInf (Finite y) = False"
| "float_le PosInf NegInf = False"

definition float_lt :: "float64 \<Rightarrow> float64 \<Rightarrow> bool" where
  "float_lt a b = (float_le a b \<and> a \<noteq> b)"

text \<open>
  \<^verbatim>\<open>if v is not None: try: x = float(v) except (TypeError, ValueError): pass\<close>:
  the variable keeps its value \<open>x\<close> when \<open>v\<close> is absent or not numeric; any
  other exception propagates.
\<close>

definition float_if_present :: "env \<Rightarrow> json \<Rightarrow> float64 \<Rightarrow> exn + float64" where
  "float_if_present e v x =
     (if v = JNull then Inr x
      else
        (case py_float e v of
           Inr y \<Rightarrow> Inr y
         | Inl c \<Rightarrow> if c = TypeError \<or> c = ValueError then Inr x else Inl c))"

section \<open>region_mapping.py\<close>

definition REGION_TO_LOCATION :: "(string \<times> string) list" where
  "REGION_TO_LOCATION =
     [(''us-east-1'', ''US East (N. Virginia)''),
      (''us-east-2'', ''US East (Ohio)''),
      (''us-west-1'', ''US West (N. California)''),
      (''us-west-2'', ''US West (Oregon)''),
      (''af-south-1'', ''Africa (Cape Town)''),
      (''ap-east-1'', ''Asia Pacific (Hong Kong)''),
      (''ap-south-1'', ''Asia Pacific (Mumbai)''),
      (''ap-south-2'', ''Asia Pacific (Hyderabad)''),
      (''ap-southeast-1'', ''Asia Pacific (Singapore)''),
      (''ap-southeast-2'', ''Asia Pacific (Sydney)''),
      (''ap-southeast-3'', ''Asia Pacific (Jakarta)''),
      (''ap-southeast-4'', ''Asia Pacific (Melbourne)''),
      (''ap-northeast-1'', ''Asia Pacific (Tokyo)''),
      (''ap-northeast-2'', ''Asia Pacific (Seoul)''),
      (''ap-northeast-3'', ''Asia Pacific (Osaka)''),
      (''ca-central-1'', ''Canada (Central)''),
      (''ca-west-1'', ''Canada West (Calgary)''),
      (''eu-central-1'', ''EU (Frankfurt)''),
      (''eu-central-2'', ''EU (Zurich)''),
      (''eu-west-1'', ''EU (Ireland)''),
      (''eu-west-2'', ''EU (London)''),
      (''eu-west-3'', ''EU (Paris)''),
      (''eu-north-1'', ''EU (Stockholm)''),
      (''eu-south-1'', ''EU (Milan)''),
      (''eu-south-2'', ''EU (Spain)''),
      (''me-south-1'', ''Middle East (Bahrain)''),
      (''me-central-1'', ''Middle East (UAE)''),
      (''sa-east-1'', ''South America (S'' @ [CHR 0xC3, CHR 0xA3] @ ''o Paulo)'')]"

definition get_location_for_region :: "env \<Rightarrow> string \<Rightarrow> string option" where
  "get_location_for_region e region_code =
     map_of REGION_TO_LOCATION (py_lower e (py_strip e region_code))"


section \<open>public_pricing.py\<close>

text \<open>
  \<^verbatim>\<open>public_pricing.PricingResult\<close> and \<^verbatim>\<open>pricing_resolver.PricingResult\<close> are two
  dataclasses of the same fields and defaults; one record stands for both. A tier
  of \<open>tiers\<close> is the dictionary that \<^verbatim>\<open>_build_tier_band\<close> makes.
\<close>

record PricingResult =
  rate_per_gb_month :: "float64 option"
  tiers :: "(string \<times> float64) list list"
  unit :: string
  currency :: string
  sku :: json
  product_attributes :: json
  term_code :: "string option"
  price_dimension :: json
  raw_filter_used :: json
  error :: "string option"

text \<open>\<^verbatim>\<open>PricingResult()\<close>: every field at its default.\<close>

definition PricingResult_default :: PricingResult where
  "PricingResult_default =
     \<lparr>rate_per_gb_month = None, tiers = [], unit = ''GB-Mo'', currency = ''USD'',
      sku = JNull, product_attributes = JObj [], term_code = None,
      price_dimension = JObj [], raw_filter_used = JObj [], error = None\<rparr>"

definition BASE_URL :: string where
  "BASE_URL = ''https://pricing.us-east-1.amazonaws.com''"

definition OFFERS_BASE :: string where
  "OFFERS_BASE = BASE_URL @ ''/offers/v1.0/aws''"

definition SERVICE_CODE_S3 :: string where
  "SERVICE_CODE_S3 = ''AmazonS3''"

definition SERVICE_CODE_BACKUP :: string where
  "SERVICE_CODE_BACKUP = ''AWSBackup''"

text \<open>\<^verbatim>\<open>_fetch_json\<close>: the document and an empty message, or \<^verbatim>\<open>None\<close> and the message.\<close>

definition fetch_json :: "env \<Rightarrow> string \<Rightarrow> json \<times> string" where
  "fetch_json e url =
     (case http_get e url of Inr d \<Rightarrow> (d, '''') | Inl msg \<Rightarrow> (JNull, msg))"

text \<open>The public client's \<^verbatim>\<open>_normalize_to_gb_month\<close>; \<open>unit\<close> is whatever the document holds.\<close>

definition pub_normalize_to_gb_month ::
  "env \<Rightarrow> float64 \<Rightarrow> json \<Rightarrow> exn + float64 option" where
  "pub_normalize_to_gb_month e price_per_unit unit_label =
     bind_exn (str_receiver (py_or unit_label (JStr ''''))) (\<lambda>s.
       let u = py_lower e (py_strip e s)
       in if py_in_str ''gb-mo'' u \<or> py_in_str ''gb-month'' u \<or> u = ''gb''
          then Inr (Some price_per_unit)
          else Inr None)"

text \<open>The public client's \<^verbatim>\<open>_parse_price_dimension\<close>.\<close>

definition pub_parse_price_dimension ::
  "env \<Rightarrow> json \<Rightarrow> string \<Rightarrow> exn + (float64 option \<times> json)" where
  "pub_parse_price_dimension e pdim cur =
     bind_exn (dict_get pdim ''pricePerUnit'') (\<lambda>pu.
     bind_exn (case pu of JObj kvs \<Rightarrow> dict_get pu cur | _ \<Rightarrow> Inr JNull) (\<lambda>price_per_unit.
     bind_exn (dict_get_default pdim ''unit'' (JStr '''')) (\<lambda>unit_label.
       if price_per_unit = JNull then Inr (None, unit_label)
       else
         (case py_float e price_per_unit of
            Inr p \<Rightarrow> Inr (Some p, unit_label)
          | Inl c \<Rightarrow>
              if c = TypeError \<or> c = ValueError then Inr (None, unit_label)
              else Inl c))))"

definition build_tier_band :: "float64 \<Rightarrow> float64 \<Rightarrow> float64 \<Rightarrow> (string \<times> float64) list" where
  "build_tier_band f t r = [(''from_gb'', f), (''to_gb'', t), (''rate_per_gb_month'', r)]"

definition get_offer_url_global :: "string \<Rightarrow> string" where
  "get_offer_url_global service_code =
     OFFERS_BASE @ ''/'' @ service_code @ ''/current/index.json''"

definition get_offer_url_regional :: "string \<Rightarrow> string \<Rightarrow> string" where
  "get_offer_url_regional service_code region_code =
     OFFERS_BASE @ ''/'' @ service_code @ ''/current/'' @ region_code @ ''/index.json''"

definition resolve_offer_url :: "env \<Rightarrow> string \<Rightarrow> exn + string option" where
  "resolve_offer_url e service_code =
     (let data = fst (fetch_json e (OFFERS_BASE @ ''/index.json''))
      in if \<not> truthy data then Inr None
         else
           bind_exn (dict_get data ''offers'') (\<lambda>ofs.
           bind_exn (dict_get (py_or ofs (JObj [])) service_code) (\<lambda>offer.
             if \<not> truthy offer then Inr None
             else
               bind_exn (dict_get_or offer ''currentVersionUrl'' ''currentRegionIndexUrl'')
                 (\<lambda>rel.
                    case rel of
                      JStr s \<Rightarrow>
                        if s = [] then Inr None
                        else if startswith s ''/'' then Inr (Some (BASE_URL @ s))
                        else if \<not> startswith s ''http''
                          then Inr (Some (OFFERS_BASE @ ''/'' @ s))
                        else Inr (Some s)
                    | _ \<Rightarrow> Inr None))))"

definition discover_backup_offer_code :: "env \<Rightarrow> exn + string option" where
  "discover_backup_offer_code e =
     (let data = fst (fetch_json e (OFFERS_BASE @ ''/index.json''))
      in if \<not> truthy data then Inr None
         else
           bind_exn (dict_get data ''offers'') (\<lambda>ofs.
           bind_exn (dict_items (py_or ofs (JObj []))) (\<lambda>offers.
             Inr (find (\<lambda>code. code \<noteq> [] \<and> py_in_str ''backup'' (py_lower e code))
                    (map fst offers)))))"

definition range_from_dim :: "env \<Rightarrow> json \<Rightarrow> exn + (float64 \<times> float64)" where
  "range_from_dim e pdim =
     bind_exn (dict_get_or pdim ''beginRange'' ''startingRange'') (\<lambda>br.
     bind_exn (dict_get_or pdim ''endRange'' ''endingRange'') (\<lambda>er.
     bind_exn (float_if_present e br (Finite 0)) (\<lambda>start.
     bind_exn (float_if_present e er PosInf) (\<lambda>end_gb.
       Inr (start, end_gb)))))"

definition backup_storage_match :: "env \<Rightarrow> json \<Rightarrow> string \<Rightarrow> exn + bool" where
  "backup_storage_match e attrs location =
     bind_exn (dict_get attrs ''location'') (\<lambda>l.
     bind_exn (str_receiver (py_or l (JStr ''''))) (\<lambda>ls.
       if py_strip e ls \<noteq> location then Inr False
       else
         bind_exn (dict_get attrs ''productFamily'') (\<lambda>p.
         bind_exn (str_receiver (py_or p (JStr ''''))) (\<lambda>ps.
           let pf = py_lower e (py_strip e ps)
           in if pf \<in> set [''storage'', ''backup storage'', ''backup''] then Inr True
              else
                bind_exn (dict_get_or attrs ''usagetype'' ''usageType'') (\<lambda>u.
                bind_exn (str_receiver (py_or u (JStr ''''))) (\<lambda>us.
                  let ut = py_lower e us
                  in if py_in_str ''backup'' ut \<and> py_in_str ''storage'' ut then Inr True
                     else if pf \<noteq> [] \<and> py_in_str ''storage'' pf then Inr True
                     else Inr False))))))"

subsection \<open>resolve_aws_backup_storage_public\<close>

text \<open>
  One round of \<^verbatim>\<open>for service_code in (...)\<close>, on the loop variables
  \<open>(data, fetch_error, url)\<close>: the URL of the index first, then the global URL,
  then the regional one. Every \<^verbatim>\<open>break\<close> of the body is taken with \<open>data\<close> truthy,
  and the body ends with \<^verbatim>\<open>if data: break\<close>.
\<close>

type_synonym fetch_state = "json \<times> string \<times> string option"

definition backup_fetch_body ::
  "env \<Rightarrow> string \<Rightarrow> string \<Rightarrow> fetch_state \<Rightarrow> exn + fetch_state" where
  "backup_fetch_body e region_code service_code st =
     bind_exn (resolve_offer_url e service_code) (\<lambda>url1.
       let (data0, fetch_error0, url0) = st;
           (data1, fetch_error1) =
             (case url1 of
                Some u \<Rightarrow> if u \<noteq> [] then fetch_json e u else (data0, fetch_error0)
              | None \<Rightarrow> (data0, fetch_error0))
       in if truthy data1 then Inr (data1, fetch_error1, url1)
          else
            let url2 = get_offer_url_global service_code;
                (data2, fetch_error2) = fetch_json e url2;
                fetch_error3 = (if fetch_error2 \<noteq> [] then fetch_error2 else fetch_error1)
            in if truthy data2 then Inr (data2, fetch_error3, Some url2)
               else
                 let url3 = get_offer_url_regional service_code region_code;
                     (data3, fetch_error4) = fetch_json e url3;
                     fetch_error5 =
                       (if fetch_error4 \<noteq> [] then fetch_error4 else fetch_error3)
                 in Inr (data3, fetch_error5, Some url3))"

fun backup_fetch_loop ::
  "env \<Rightarrow> string \<Rightarrow> string option list \<Rightarrow> fetch_state \<Rightarrow> exn + fetch_state" where
  "backup_fetch_loop e region_code [] st = Inr st"
| "backup_fetch_loop e region_code (service_code # rest) st =
     (case service_code of
        None \<Rightarrow> backup_fetch_loop e region_code rest st
      | Some sc \<Rightarrow>
          if sc = [] then backup_fetch_loop e region_code rest st
          else
            (case backup_fetch_body e region_code sc st of
               Inl ex \<Rightarrow> Inl ex
             | Inr st' \<Rightarrow>
                 if truthy (fst st') then Inr st'
                 else backup_fetch_loop e region_code rest st'))"

definition json_of_url :: "string option \<Rightarrow> json" where
  "json_of_url url = (case url of Some u \<Rightarrow> JStr u | None \<Rightarrow> JNull)"

text \<open>The body of \<^verbatim>\<open>for dim_id, dim in dims.items()\<close>: \<open>Some\<close> is \<^verbatim>\<open>return best\<close>.\<close>

definition backup_public_dim ::
  "env \<Rightarrow> string \<Rightarrow> PricingResult \<Rightarrow> string \<Rightarrow> json \<Rightarrow> json
   \<Rightarrow> exn + PricingResult option" where
  "backup_public_dim e cur best sku_key attrs pdim =
     bind_exn (pub_parse_price_dimension e pdim cur) (\<lambda>(price_per_unit, unit_label).
       case price_per_unit of
         None \<Rightarrow> Inr None
       | Some p \<Rightarrow>
           bind_exn (pub_normalize_to_gb_month e p unit_label) (\<lambda>rate.
             case rate of
               None \<Rightarrow> Inr None
             | Some r \<Rightarrow>
                 if float_le (Finite 0) r
                 then Inr (Some (best
                        \<lparr>rate_per_gb_month := Some r, sku := JStr sku_key,
                         product_attributes := attrs, term_code := Some ''OnDemand'',
                         price_dimension := pdim, currency := cur, unit := ''GB-Mo''\<rparr>))
                 else Inr None))"

definition backup_public_term ::
  "env \<Rightarrow> string \<Rightarrow> PricingResult \<Rightarrow> string \<Rightarrow> json \<Rightarrow> json
   \<Rightarrow> exn + PricingResult option" where
  "backup_public_term e cur best sku_key attrs term_detail =
     bind_exn (dict_get term_detail ''priceDimensions'') (\<lambda>d.
     bind_exn (dict_items (py_or d (JObj []))) (\<lambda>dims.
       first_some (\<lambda>(dim_id, pdim). backup_public_dim e cur best sku_key attrs pdim) dims))"

definition backup_public_product ::
  "env \<Rightarrow> string \<Rightarrow> string \<Rightarrow> json \<Rightarrow> PricingResult \<Rightarrow> string \<times> json
   \<Rightarrow> exn + PricingResult option" where
  "backup_public_product e location cur on_demand best sp =
     (let (sku_key, product) = sp
      in bind_exn (dict_get product ''attributes'') (\<lambda>a.
           let attrs = py_or a (JObj [])
           in bind_exn (backup_storage_match e attrs location) (\<lambda>m.
                if \<not> m then Inr None
                else
                  bind_exn (py_contains on_demand sku_key) (\<lambda>present.
                    if \<not> present then Inr None
                    else
                      bind_exn (py_getitem on_demand sku_key) (\<lambda>term_entries.
                      bind_exn (dict_items term_entries) (\<lambda>entries.
                        first_some
                          (\<lambda>(term_sku, term_detail).
                             backup_public_term e cur best sku_key attrs term_detail)
                          entries))))))"

text \<open>
  Lines 218 to 251: the scan of the fetched document, from
  \<^verbatim>\<open>products = data.get("products") or {}\<close> to the end of the function.
\<close>

definition backup_public_scan ::
  "env \<Rightarrow> string \<Rightarrow> string \<Rightarrow> json \<Rightarrow> string option \<Rightarrow> exn + PricingResult" where
  "backup_public_scan e location cur data url =
     bind_exn (dict_get data ''products'') (\<lambda>p.
     bind_exn (dict_get data ''terms'') (\<lambda>t.
     bind_exn (dict_get (py_or t (JObj [])) ''OnDemand'') (\<lambda>od.
       let products = py_or p (JObj []);
           on_demand = py_or od (JObj []);
           best = PricingResult_default
             \<lparr>raw_filter_used :=
                JObj [(''service'', JStr ''AWS Backup (public)''),
                      (''location'', JStr location),
                      (''url'', json_of_url url)]\<rparr>
       in bind_exn (dict_items products) (\<lambda>items.
          bind_exn (first_some (backup_public_product e location cur on_demand best) items)
            (\<lambda>found.
               case found of
                 Some r \<Rightarrow> Inr r
               | None \<Rightarrow>
                   Inr (best\<lparr>error := Some
                     ''AWS Backup storage not in public price list for this region. S3 comparison below uses public pricing.''\<rparr>))))))"

text \<open>
  The fetches of \<^verbatim>\<open>resolve_aws_backup_storage_public\<close>: the discovered offer code,
  then the known one.
\<close>

definition backup_public_fetch :: "env \<Rightarrow> string \<Rightarrow> exn + fetch_state" where
  "backup_public_fetch e region_code =
     bind_exn (discover_backup_offer_code e) (\<lambda>discovered.
       backup_fetch_loop e region_code [discovered, Some SERVICE_CODE_BACKUP]
         (JNull, [], None))"

definition resolve_aws_backup_storage_public ::
  "env \<Rightarrow> string \<Rightarrow> string \<Rightarrow> exn + PricingResult" where
  "resolve_aws_backup_storage_public e region_code cur =
     (case get_location_for_region e region_code of
        None \<Rightarrow>
          Inr (PricingResult_default\<lparr>error := Some (''Unknown region: '' @ region_code)\<rparr>)
      | Some location \<Rightarrow>
          if location = [] then
            Inr (PricingResult_default\<lparr>error := Some (''Unknown region: '' @ region_code)\<rparr>)
          else
            bind_exn (backup_public_fetch e region_code) (\<lambda>(data, fetch_error, url).
              if \<not> truthy data then
                Inr (PricingResult_default
                  \<lparr>error := Some (''AWS Backup not in public price list. ''
                     @ (if fetch_error \<noteq> [] then fetch_error
                        else ''Try Pricing API with credentials for Backup.'')),
                   raw_filter_used :=
                     JObj [(''service'', JStr ''AWS Backup''),
                           (''region'', JStr region_code),
                           (''url'', json_of_url url)]\<rparr>)
              else backup_public_scan e location cur data url))"


subsection \<open>resolve_s3_storage_public\<close>

text \<open>The three fetches of \<^verbatim>\<open>resolve_s3_storage_public\<close>, giving \<open>(data, fetch_error, url)\<close>.\<close>

definition s3_public_fetch :: "env \<Rightarrow> string \<Rightarrow> exn + fetch_state" where
  "s3_public_fetch e region_code =
     bind_exn (resolve_offer_url e SERVICE_CODE_S3) (\<lambda>url1.
       let (data1, fetch_error1) =
             (case url1 of
                Some u \<Rightarrow> if u \<noteq> [] then fetch_json e u else (JNull, '''')
              | None \<Rightarrow> (JNull, ''''))
       in if truthy data1 then Inr (data1, fetch_error1, url1)
          else
            let url2 = get_offer_url_global SERVICE_CODE_S3;
                (data2, fetch_error2) = fetch_json e url2;
                fetch_error3 = (if fetch_error2 \<noteq> [] then fetch_error2 else fetch_error1)
            in if truthy data2 then Inr (data2, fetch_error3, Some url2)
               else
                 let url3 = get_offer_url_regional SERVICE_CODE_S3 region_code;
                     (data3, fetch_error4) = fetch_json e url3;
                     fetch_error5 =
                       (if fetch_error4 \<noteq> [] then fetch_error4 else fetch_error3)
                 in Inr (data3, fetch_error5, Some url3))"

text \<open>
  The S3 loops update \<^verbatim>\<open>tiers_with_rates\<close>, the list of \<open>(start, end, rate)\<close>
  triples, and \<^verbatim>\<open>result\<close>.
\<close>

type_synonym triple = "float64 \<times> float64 \<times> float64"

type_synonym s3_state = "triple list \<times> PricingResult"

definition s3_public_dim ::
  "env \<Rightarrow> string \<Rightarrow> string \<Rightarrow> json \<Rightarrow> json \<Rightarrow> s3_state \<Rightarrow> exn + s3_state" where
  "s3_public_dim e cur sku_key attrs pdim st =
     bind_exn (pub_parse_price_dimension e pdim cur) (\<lambda>(price_per_unit, unit_label).
       case price_per_unit of
         None \<Rightarrow> Inr st
       | Some p \<Rightarrow>
           bind_exn (pub_normalize_to_gb_month e p unit_label) (\<lambda>rate.
             case rate of
               None \<Rightarrow> Inr st
             | Some r \<Rightarrow>
                 if float_lt r (Finite 0) then Inr st
                 else
                   bind_exn (range_from_dim e pdim) (\<lambda>(start, end_gb).
                     let (tiers_with_rates, result) = st;
                         result1 =
                           (if sku result = JNull
                            then result\<lparr>sku := JStr sku_key, product_attributes := attrs,
                                   term_code := Some ''OnDemand'', price_dimension := pdim\<rparr>
                            else result)
                     in Inr (tiers_with_rates @ [(start, end_gb, r)],
                             result1\<lparr>currency := cur, unit := ''GB-Mo''\<rparr>))))"

definition s3_public_term ::
  "env \<Rightarrow> string \<Rightarrow> string \<Rightarrow> json \<Rightarrow> json \<Rightarrow> s3_state \<Rightarrow> exn + s3_state" where
  "s3_public_term e cur sku_key attrs term_detail st =
     bind_exn (dict_get term_detail ''priceDimensions'') (\<lambda>d.
     bind_exn (dict_items (py_or d (JObj []))) (\<lambda>dims.
       fold_exn (\<lambda>(dim_id, pdim). s3_public_dim e cur sku_key attrs pdim) dims st))"

text \<open>
  The relaxed comparison of the product's storage class \<open>sc\<close> (stripped,
  lower-cased) with the requested one: true when the product is skipped.
\<close>

definition storage_class_mismatch :: "string \<Rightarrow> string \<Rightarrow> bool" where
  "storage_class_mismatch sc want =
     (sc \<noteq> []
      \<and> \<not> (want = ''standard'' \<and> (py_in_str ''general'' sc \<or> sc = ''standard''))
      \<and> want \<noteq> sc \<and> \<not> py_in_str want sc \<and> \<not> py_in_str sc want)"

definition s3_public_product ::
  "env \<Rightarrow> string \<Rightarrow> string \<Rightarrow> string \<Rightarrow> json \<Rightarrow> string \<times> json \<Rightarrow> s3_state
   \<Rightarrow> exn + s3_state" where
  "s3_public_product e location storage_class cur on_demand sp st =
     (let (sku_key, product) = sp
      in bind_exn (dict_get product ''attributes'') (\<lambda>a.
           let attrs = py_or a (JObj [])
           in bind_exn (dict_get attrs ''productFamily'') (\<lambda>pf.
                if pf \<noteq> JStr ''Storage'' then Inr st
                else
                  bind_exn (dict_get attrs ''location'') (\<lambda>loc.
                    if loc \<noteq> JStr location then Inr st
                    else
                      bind_exn (dict_get_or attrs ''storageClass'' ''storage class'') (\<lambda>c.
                      bind_exn (str_receiver (py_or c (JStr ''''))) (\<lambda>cs.
                        if storage_class_mismatch (py_lower e (py_strip e cs))
                             (py_lower e (py_strip e storage_class))
                        then Inr st
                        else
                          bind_exn (py_contains on_demand sku_key) (\<lambda>present.
                            if \<not> present then Inr st
                            else
                              bind_exn (py_getitem on_demand sku_key) (\<lambda>term_entries.
                              bind_exn (dict_items term_entries) (\<lambda>entries.
                                fold_exn
                                  (\<lambda>(term_sku, term_detail).
                                     s3_public_term e cur sku_key attrs term_detail)
                                  entries st)))))))))"

text \<open>
  \<^verbatim>\<open>tiers_with_rates.sort(key=lambda x: x[0])\<close>: a stable sort by start that
  compares with \<^verbatim>\<open><\<close> only, written as an insertion sort: each triple goes before
  the first one whose start is greater. On starts that \<^verbatim>\<open><\<close> orders (none is NaN)
  this is the arrangement Python's sort produces.
\<close>

fun insert_by_start :: "triple \<Rightarrow> triple list \<Rightarrow> triple list" where
  "insert_by_start x [] = [x]"
| "insert_by_start x (y # ys) =
     (if float_lt (fst x) (fst y) then x # y # ys else y # insert_by_start x ys)"

definition sort_by_start :: "triple list \<Rightarrow> triple list" where
  "sort_by_start xs = foldl (\<lambda>sorted_part x. insert_by_start x sorted_part) [] xs"

text \<open>
  The end of both S3 resolvers (lines 338 to 347 of \<^verbatim>\<open>public_pricing.py\<close>, lines 302
  to 313 of \<^verbatim>\<open>pricing_resolver.py\<close>; the two differ in the error message only):
  no triple is an error; otherwise the triples are sorted by start and one triple
  with an infinite end is a flat rate, anything else the tier list.
\<close>

definition s3_collapse :: "string \<Rightarrow> s3_state \<Rightarrow> PricingResult" where
  "s3_collapse msg st =
     (let (tiers_with_rates, result) = st
      in if tiers_with_rates = [] then result\<lparr>error := Some msg\<rparr>
         else
           let sorted_triples = sort_by_start tiers_with_rates
           in if length sorted_triples = 1 \<and> fst (snd (hd sorted_triples)) = PosInf
              then result\<lparr>rate_per_gb_month := Some (snd (snd (hd sorted_triples)))\<rparr>
              else result\<lparr>tiers := map (\<lambda>(f, t, r). build_tier_band f t r) sorted_triples\<rparr>)"

text \<open>
  The scan of a fetched document by \<^verbatim>\<open>resolve_s3_storage_public\<close>: the triples and
  the result as the loops leave them.
\<close>

definition s3_public_collect ::
  "env \<Rightarrow> string \<Rightarrow> string \<Rightarrow> string \<Rightarrow> json \<Rightarrow> string option \<Rightarrow> exn + s3_state" where
  "s3_public_collect e location storage_class cur data url =
     bind_exn (dict_get data ''products'') (\<lambda>p.
     bind_exn (dict_get data ''terms'') (\<lambda>t.
     bind_exn (dict_get (py_or t (JObj [])) ''OnDemand'') (\<lambda>od.
       let products = py_or p (JObj []);
           on_demand = py_or od (JObj []);
           result = PricingResult_default
             \<lparr>raw_filter_used :=
                JObj [(''service'', JStr ''Amazon S3 (public)''),
                      (''storageClass'', JStr storage_class),
                      (''location'', JStr location),
                      (''url'', json_of_url url)]\<rparr>
       in bind_exn (dict_items products) (\<lambda>items.
            fold_exn (s3_public_product e location storage_class cur on_demand) items
              ([], result)))))"

definition resolve_s3_storage_public ::
  "env \<Rightarrow> string \<Rightarrow> string \<Rightarrow> string \<Rightarrow> exn + PricingResult" where
  "resolve_s3_storage_public e region_code storage_class cur =
     (case get_location_for_region e region_code of
        None \<Rightarrow>
          Inr (PricingResult_default\<lparr>error := Some (''Unknown region: '' @ region_code)\<rparr>)
      | Some location \<Rightarrow>
          if location = [] then
            Inr (PricingResult_default\<lparr>error := Some (''Unknown region: '' @ region_code)\<rparr>)
          else
            bind_exn (s3_public_fetch e region_code) (\<lambda>(data, fetch_error, url).
              if \<not> truthy data then
                Inr (PricingResult_default
                  \<lparr>error := Some (''Public price list (S3) unavailable. ''
                     @ (if fetch_error \<noteq> [] then fetch_error else ''Check network.'')),
                   raw_filter_used :=
                     JObj [(''service'', JStr SERVICE_CODE_S3),
                           (''region'', JStr region_code),
                           (''url'', json_of_url url)]\<rparr>)
              else
                bind_exn (s3_public_collect e location storage_class cur data url) (\<lambda>st.
                  Inr (s3_collapse
                    ''No S3 storage price found for storage class and location in public price list''
                    st))))"


section \<open>pricing_resolver.py\<close>

text \<open>
  What the resolver does with the authenticated Pricing API is recorded: building
  a client with \<^verbatim>\<open>boto3.client\<close> and querying \<^verbatim>\<open>get_products\<close> for a service.
\<close>

datatype auth_event = CreateClient | GetProducts string

definition PRICING_REGION :: string where
  "PRICING_REGION = ''us-east-1''"

definition normalize_to_gb_month ::
  "env \<Rightarrow> float64 \<Rightarrow> json \<Rightarrow> exn + float64 option" where
  "normalize_to_gb_month e price_per_unit unit_label =
     bind_exn (str_receiver (py_or unit_label (JStr ''''))) (\<lambda>s.
       let u = py_lower e (py_strip e s)
       in if py_in_str ''gb-mo'' u \<or> py_in_str ''gb-month'' u then Inr (Some price_per_unit)
          else if u = ''gb'' then Inr (Some price_per_unit)
          else Inr None)"

definition parse_price_dimension ::
  "env \<Rightarrow> json \<Rightarrow> string \<Rightarrow> exn + (float64 option \<times> json)" where
  "parse_price_dimension e pdim cur =
     bind_exn (dict_get_default pdim ''pricePerUnit'' (JObj [])) (\<lambda>pu.
     bind_exn (dict_get pu cur) (\<lambda>price_per_unit.
     bind_exn (dict_get_default pdim ''unit'' (JStr '''')) (\<lambda>unit_label.
       if price_per_unit = JNull then Inr (None, unit_label)
       else
         (case py_float e price_per_unit of
            Inr p \<Rightarrow> Inr (Some p, unit_label)
          | Inl c \<Rightarrow>
              if c = TypeError \<or> c = ValueError then Inr (None, unit_label)
              else Inl c))))"

text \<open>
  \<^verbatim>\<open>get_products\<close>: every page is consumed and every entry decoded, an entry that
  does not decode is skipped; an exception of the paginator is re-raised.
\<close>

definition get_products ::
  "pricing_client \<Rightarrow> string \<Rightarrow> json \<Rightarrow> (exn \<times> string) + json list" where
  "get_products client service filters =
     (case client service filters of
        Inl ex \<Rightarrow> Inl ex
      | Inr pages \<Rightarrow> Inr (concat (map (List.map_filter (\<lambda>entry. entry)) pages)))"

definition term_match :: "string \<Rightarrow> string \<Rightarrow> json" where
  "term_match field v =
     JObj [(''Type'', JStr ''TERM_MATCH''), (''Field'', JStr field), (''Value'', JStr v)]"

text \<open>
  The truth value of an optional string (\<^verbatim>\<open>None\<close> and the empty string are falsy),
  and \<^verbatim>\<open>pub_result.error or generic\<close>.
\<close>

definition str_truthy :: "string option \<Rightarrow> bool" where
  "str_truthy s = (case s of Some m \<Rightarrow> m \<noteq> [] | None \<Rightarrow> False)"

definition error_or :: "string option \<Rightarrow> string \<Rightarrow> string" where
  "error_or err generic =
     (case err of Some m \<Rightarrow> if m \<noteq> [] then m else generic | None \<Rightarrow> generic)"

text \<open>
  \<^verbatim>\<open>c = client or boto3.client("pricing", region_name=PRICING_REGION)\<close> with its two
  \<^verbatim>\<open>except\<close> clauses (the same text in both resolvers): \<open>Inl\<close> is the result that
  the resolver returns at once, \<open>Inr\<close> the client to go on with.
\<close>

definition pricing_client_or_return ::
  "env \<Rightarrow> pricing_client option \<Rightarrow> PricingResult
   \<Rightarrow> (PricingResult + pricing_client) \<times> auth_event list" where
  "pricing_client_or_return e client pub_result =
     (case client of
        Some c \<Rightarrow> (Inr c, [])
      | None \<Rightarrow>
          (case boto3_client e of
             Inr c \<Rightarrow> (Inr c, [CreateClient])
           | Inl (cls, m) \<Rightarrow>
               if cls = NoCredentialsError then
                 (Inl (PricingResult_default
                    \<lparr>error := Some (error_or (error pub_result)
                       ''Pricing unavailable. Public price list failed; no AWS credentials for API fallback.''),
                     raw_filter_used := raw_filter_used pub_result\<rparr>),
                  [CreateClient])
               else
                 (Inl (PricingResult_default
                    \<lparr>error := Some (''Failed to create pricing client: '' @ m)\<rparr>),
                  [CreateClient])))"

text \<open>
  \<^verbatim>\<open>products = get_products(c, service, filters)\<close> with its three \<^verbatim>\<open>except\<close>
  clauses (the same text in both resolvers).
\<close>

definition products_or_return ::
  "pricing_client \<Rightarrow> string \<Rightarrow> json \<Rightarrow> PricingResult \<Rightarrow> PricingResult + json list" where
  "products_or_return c service filters pub_result =
     (case get_products c service filters of
        Inr products \<Rightarrow> Inr products
      | Inl (cls, m) \<Rightarrow>
          if cls = NoCredentialsError then
            Inl (PricingResult_default
              \<lparr>error := Some (error_or (error pub_result)
                 ''Public price list failed; no AWS credentials for API fallback.''),
               raw_filter_used := raw_filter_used pub_result\<rparr>)
          else
            Inl (PricingResult_default
              \<lparr>error := Some m, raw_filter_used := JObj [(''filters'', filters)]\<rparr>))"

subsection \<open>resolve_aws_backup_storage\<close>

text \<open>
  The innermost loop body of both scans of the products: \<open>Some\<close> is
  \<^verbatim>\<open>return best\<close>, with \<open>term_type\<close> the term the dimension was found under.
\<close>

definition backup_api_dim ::
  "env \<Rightarrow> string \<Rightarrow> PricingResult \<Rightarrow> json \<Rightarrow> json \<Rightarrow> string \<Rightarrow> json
   \<Rightarrow> exn + PricingResult option" where
  "backup_api_dim e cur best product attrs term_type pdim =
     bind_exn (parse_price_dimension e pdim cur) (\<lambda>(price_per_unit, unit_label).
       case price_per_unit of
         None \<Rightarrow> Inr None
       | Some p \<Rightarrow>
           bind_exn (normalize_to_gb_month e p unit_label) (\<lambda>rate.
             case rate of
               None \<Rightarrow> Inr None
             | Some r \<Rightarrow>
                 if float_le (Finite 0) r
                 then
                   bind_exn (dict_get_default product ''product'' (JObj [])) (\<lambda>pp.
                   bind_exn (dict_get pp ''sku'') (\<lambda>s.
                     Inr (Some (best
                        \<lparr>rate_per_gb_month := Some r, sku := s,
                         product_attributes := attrs, term_code := Some term_type,
                         price_dimension := pdim, currency := cur, unit := ''GB-Mo''\<rparr>))))
                 else Inr None))"

definition backup_api_term ::
  "env \<Rightarrow> string \<Rightarrow> PricingResult \<Rightarrow> json \<Rightarrow> json \<Rightarrow> string \<Rightarrow> json
   \<Rightarrow> exn + PricingResult option" where
  "backup_api_term e cur best product attrs term_type term_detail =
     bind_exn (dict_get term_detail ''priceDimensions'') (\<lambda>d.
     bind_exn (dict_items (py_or d (JObj []))) (\<lambda>dims.
       first_some (\<lambda>(dim_id, pdim). backup_api_dim e cur best product attrs term_type pdim)
         dims))"

text \<open>The body of the first \<^verbatim>\<open>for product in products\<close>: on-demand terms only.\<close>

definition backup_api_on_demand ::
  "env \<Rightarrow> string \<Rightarrow> PricingResult \<Rightarrow> json \<Rightarrow> exn + PricingResult option" where
  "backup_api_on_demand e cur best product =
     bind_exn (dict_get_default product ''product'' (JObj [])) (\<lambda>pp.
     bind_exn (dict_get_default pp ''attributes'' (JObj [])) (\<lambda>attrs.
     bind_exn (dict_get_default attrs ''productFamily'' (JStr '''')) (\<lambda>product_family.
       if product_family \<noteq> JStr ''Storage'' then Inr None
       else
         bind_exn (dict_get_default product ''terms'' (JObj [])) (\<lambda>t.
         bind_exn (dict_get_default (py_or t (JObj [])) ''OnDemand'' (JObj [])) (\<lambda>on_demand.
         bind_exn (dict_items on_demand) (\<lambda>entries.
           first_some
             (\<lambda>(sku_key, term_detail).
                backup_api_term e cur best product attrs ''OnDemand'' term_detail)
             entries))))))"

text \<open>The body of the second \<^verbatim>\<open>for product in products\<close>: on-demand, then reserved.\<close>

definition backup_api_any_term ::
  "env \<Rightarrow> string \<Rightarrow> PricingResult \<Rightarrow> json \<Rightarrow> exn + PricingResult option" where
  "backup_api_any_term e cur best product =
     bind_exn (dict_get_default product ''product'' (JObj [])) (\<lambda>pp.
     bind_exn (dict_get_default pp ''attributes'' (JObj [])) (\<lambda>attrs.
     bind_exn (dict_get attrs ''productFamily'') (\<lambda>product_family.
       if product_family \<noteq> JStr ''Storage'' then Inr None
       else
         first_some
           (\<lambda>term_type.
              bind_exn (dict_get_default product ''terms'' (JObj [])) (\<lambda>t.
              bind_exn (dict_get t term_type) (\<lambda>x.
              bind_exn (dict_items (py_or x (JObj []))) (\<lambda>entries.
                first_some
                  (\<lambda>(sku_key, term_detail).
                     backup_api_term e cur best product attrs term_type term_detail)
                  entries))))
           [''OnDemand'', ''Reserved''])))"

text \<open>
  The second half of \<^verbatim>\<open>resolve_aws_backup_storage\<close> (from the comment
  \<^verbatim>\<open># 2) Fallback to Pricing API\<close> on), given the location and the public result.
\<close>

text \<open>The \<^verbatim>\<open>filters\<close> of \<^verbatim>\<open>resolve_aws_backup_storage\<close>.\<close>

definition backup_filters :: "string \<Rightarrow> json" where
  "backup_filters location =
     JArr [term_match ''productFamily'' ''Storage'',
           term_match ''location'' location,
           term_match ''serviceCode'' ''AWS Backup'']"

definition backup_api_fallback ::
  "env \<Rightarrow> string \<Rightarrow> string \<Rightarrow> pricing_client option \<Rightarrow> PricingResult
   \<Rightarrow> exn + (PricingResult \<times> auth_event list)" where
  "backup_api_fallback e location cur client pub_result =
     (let filters = backup_filters location
      in case pricing_client_or_return e client pub_result of
           (Inl r, evs) \<Rightarrow> Inr (r, evs)
         | (Inr c, evs) \<Rightarrow>
             (case products_or_return c ''AWS Backup'' filters pub_result of
                Inl r \<Rightarrow> Inr (r, evs @ [GetProducts ''AWS Backup''])
              | Inr products \<Rightarrow>
                  let best = PricingResult_default
                        \<lparr>raw_filter_used :=
                           JObj [(''service'', JStr ''AWS Backup''),
                                 (''location'', JStr location),
                                 (''filters'', filters)]\<rparr>
                  in bind_exn (first_some (backup_api_on_demand e cur best) products)
                       (\<lambda>found1.
                          case found1 of
                            Some r \<Rightarrow> Inr (r, evs @ [GetProducts ''AWS Backup''])
                          | None \<Rightarrow>
                              bind_exn (first_some (backup_api_any_term e cur best) products)
                                (\<lambda>found2.
                                   case found2 of
                                     Some r \<Rightarrow> Inr (r, evs @ [GetProducts ''AWS Backup''])
                                   | None \<Rightarrow>
                                       Inr (best\<lparr>error := Some
                                         ''No AWS Backup storage price found for location''\<rparr>,
                                         evs @ [GetProducts ''AWS Backup''])))))"

definition resolve_aws_backup_storage ::
  "env \<Rightarrow> string \<Rightarrow> string \<Rightarrow> pricing_client option
   \<Rightarrow> exn + (PricingResult \<times> auth_event list)" where
  "resolve_aws_backup_storage e region_code cur client =
     (case get_location_for_region e region_code of
        None \<Rightarrow>
          Inr (PricingResult_default\<lparr>error := Some (''Unknown region: '' @ region_code)\<rparr>, [])
      | Some location \<Rightarrow>
          if location = [] then
            Inr (PricingResult_default\<lparr>error := Some (''Unknown region: '' @ region_code)\<rparr>,
                 [])
          else
            bind_exn (resolve_aws_backup_storage_public e region_code cur) (\<lambda>pub_result.
              if \<not> str_truthy (error pub_result) \<and> rate_per_gb_month pub_result \<noteq> None
              then
                Inr (PricingResult_default
                       \<lparr>rate_per_gb_month := rate_per_gb_month pub_result,
                        currency := currency pub_result,
                        unit := unit pub_result,
                        sku := sku pub_result,
                        product_attributes := product_attributes pub_result,
                        term_code := term_code pub_result,
                        price_dimension := price_dimension pub_result,
                        raw_filter_used := raw_filter_used pub_result\<rparr>,
                     [])
              else backup_api_fallback e location cur client pub_result))"

subsection \<open>resolve_s3_storage\<close>

text \<open>
  Lines 278 to 292: the tier range of a price dimension on the authenticated
  path, read from \<^verbatim>\<open>beginRange\<close> and \<^verbatim>\<open>endRange\<close>.
\<close>

definition s3_api_range :: "env \<Rightarrow> json \<Rightarrow> exn + (float64 \<times> float64)" where
  "s3_api_range e pdim =
     bind_exn (dict_get pdim ''beginRange'') (\<lambda>br.
     bind_exn (dict_get pdim ''endRange'') (\<lambda>er.
     bind_exn (float_if_present e br (Finite 0)) (\<lambda>start.
     bind_exn (float_if_present e er PosInf) (\<lambda>end_gb.
       Inr (start, end_gb)))))"

definition s3_api_dim ::
  "env \<Rightarrow> string \<Rightarrow> json \<Rightarrow> json \<Rightarrow> json \<Rightarrow> s3_state \<Rightarrow> exn + s3_state" where
  "s3_api_dim e cur product attrs pdim st =
     bind_exn (parse_price_dimension e pdim cur) (\<lambda>(price_per_unit, unit_label).
       case price_per_unit of
         None \<Rightarrow> Inr st
       | Some p \<Rightarrow>
           bind_exn (normalize_to_gb_month e p unit_label) (\<lambda>rate.
             case rate of
               None \<Rightarrow> Inr st
             | Some r \<Rightarrow>
                 if float_lt r (Finite 0) then Inr st
                 else
                   bind_exn (s3_api_range e pdim) (\<lambda>(start, end_gb).
                     let (tiers_with_rates, result) = st
                     in bind_exn
                          (if sku result = JNull
                           then
                             bind_exn (dict_get_default product ''product'' (JObj [])) (\<lambda>pp.
                             bind_exn (dict_get pp ''sku'') (\<lambda>s.
                               Inr (result\<lparr>sku := s, product_attributes := attrs,
                                      term_code := Some ''OnDemand'',
                                      price_dimension := pdim\<rparr>)))
                           else Inr result)
                          (\<lambda>result1.
                             Inr (tiers_with_rates @ [(start, end_gb, r)],
                                  result1\<lparr>currency := cur, unit := ''GB-Mo''\<rparr>)))))"

definition s3_api_term ::
  "env \<Rightarrow> string \<Rightarrow> json \<Rightarrow> json \<Rightarrow> json \<Rightarrow> s3_state \<Rightarrow> exn + s3_state" where
  "s3_api_term e cur product attrs term_detail st =
     bind_exn (dict_get term_detail ''priceDimensions'') (\<lambda>d.
     bind_exn (dict_items (py_or d (JObj []))) (\<lambda>dims.
       fold_exn (\<lambda>(dim_id, pdim). s3_api_dim e cur product attrs pdim) dims st))"

definition s3_api_product :: "env \<Rightarrow> string \<Rightarrow> json \<Rightarrow> s3_state \<Rightarrow> exn + s3_state" where
  "s3_api_product e cur product st =
     bind_exn (dict_get_default product ''product'' (JObj [])) (\<lambda>pp.
     bind_exn (dict_get_default pp ''attributes'' (JObj [])) (\<lambda>attrs.
     bind_exn (dict_get attrs ''productFamily'') (\<lambda>product_family.
       if product_family \<noteq> JStr ''Storage'' then Inr st
       else
         bind_exn (dict_get_default product ''terms'' (JObj [])) (\<lambda>t.
         bind_exn (dict_get_default (py_or t (JObj [])) ''OnDemand'' (JObj [])) (\<lambda>on_demand.
         bind_exn (dict_items on_demand) (\<lambda>entries.
           fold_exn
             (\<lambda>(sku_key, term_detail). s3_api_term e cur product attrs term_detail)
             entries st))))))"

text \<open>
  The second half of \<^verbatim>\<open>resolve_s3_storage\<close> (from the comment
  \<^verbatim>\<open># 2) Fallback to Pricing API\<close> on).
\<close>

text \<open>The \<^verbatim>\<open>filters\<close> of \<^verbatim>\<open>resolve_s3_storage\<close>.\<close>

definition s3_filters :: "string \<Rightarrow> string \<Rightarrow> json" where
  "s3_filters location storage_class =
     JArr [term_match ''productFamily'' ''Storage'',
           term_match ''location'' location,
           term_match ''serviceCode'' ''Amazon S3'',
           term_match ''storageClass'' storage_class]"

definition s3_api_fallback ::
  "env \<Rightarrow> string \<Rightarrow> string \<Rightarrow> string \<Rightarrow> pricing_client option \<Rightarrow> PricingResult
   \<Rightarrow> exn + (PricingResult \<times> auth_event list)" where
  "s3_api_fallback e location storage_class cur client pub_result =
     (let filters = s3_filters location storage_class
      in case pricing_client_or_return e client pub_result of
           (Inl r, evs) \<Rightarrow> Inr (r, evs)
         | (Inr c, evs) \<Rightarrow>
             (case products_or_return c ''Amazon S3'' filters pub_result of
                Inl r \<Rightarrow> Inr (r, evs @ [GetProducts ''Amazon S3''])
              | Inr products \<Rightarrow>
                  let result = PricingResult_default
                        \<lparr>raw_filter_used :=
                           JObj [(''service'', JStr ''Amazon S3''),
                                 (''storageClass'', JStr storage_class),
                                 (''location'', JStr location)]\<rparr>
                  in bind_exn (fold_exn (s3_api_product e cur) products ([], result))
                       (\<lambda>st.
                          Inr (s3_collapse
                                 ''No S3 storage price found for storage class and location''
                                 st,
                               evs @ [GetProducts ''Amazon S3'']))))"

definition resolve_s3_storage ::
  "env \<Rightarrow> string \<Rightarrow> string \<Rightarrow> string \<Rightarrow> pricing_client option
   \<Rightarrow> exn + (PricingResult \<times> auth_event list)" where
  "resolve_s3_storage e region_code storage_class cur client =
     (case get_location_for_region e region_code of
        None \<Rightarrow>
          Inr (PricingResult_default\<lparr>error := Some (''Unknown region: '' @ region_code)\<rparr>, [])
      | Some location \<Rightarrow>
          if location = [] then
            Inr (PricingResult_default\<lparr>error := Some (''Unknown region: '' @ region_code)\<rparr>,
                 [])
          else
            bind_exn (resolve_s3_storage_public e region_code storage_class cur)
              (\<lambda>pub_result.
                 if \<not> str_truthy (error pub_result)
                    \<and> (rate_per_gb_month pub_result \<noteq> None \<or> tiers pub_result \<noteq> [])
                 then
                   Inr (PricingResult_default
                          \<lparr>rate_per_gb_month := rate_per_gb_month pub_result,
                           tiers := tiers pub_result,
                           currency := currency pub_result,
                           unit := unit pub_result,
                           sku := sku pub_result,
                           product_attributes := product_attributes pub_result,
                           term_code := term_code pub_result,
                           price_dimension := price_dimension pub_result,
                           raw_filter_used := raw_filter_used pub_result\<rparr>,
                        [])
                 else s3_api_fallback e location storage_class cur client pub_result))"


section \<open>Shapes of a pricing result\<close>

text \<open>
  The three shapes a \<^verbatim>\<open>PricingResult\<close> of the public client can have: a flat rate,
  a tier list, or an error with non-empty text, each without the other two.
\<close>

definition public_shape :: "PricingResult \<Rightarrow> bool" where
  "public_shape r \<longleftrightarrow>
     (error r = None \<and> tiers r = [] \<and> rate_per_gb_month r \<noteq> None)
     \<or> (error r = None \<and> tiers r \<noteq> [] \<and> rate_per_gb_month r = None)
     \<or> (str_truthy (error r) \<and> tiers r = [] \<and> rate_per_gb_month r = None)"

text \<open>
  The shapes of a result of the resolver: as above, except that the text of an
  error can be any string (it can be \<^verbatim>\<open>str(e)\<close> of an exception).
\<close>

definition result_shape :: "PricingResult \<Rightarrow> bool" where
  "result_shape r \<longleftrightarrow>
     (error r = None \<and> tiers r = [] \<and> rate_per_gb_month r \<noteq> None)
     \<or> (error r = None \<and> tiers r \<noteq> [] \<and> rate_per_gb_month r = None)
     \<or> (error r \<noteq> None \<and> tiers r = [] \<and> rate_per_gb_month r = None)"

text \<open>A result that reports an error only.\<close>

definition error_shape :: "PricingResult \<Rightarrow> bool" where
  "error_shape r \<longleftrightarrow> error r \<noteq> None \<and> tiers r = [] \<and> rate_per_gb_month r = None"

text \<open>
  What \<^verbatim>\<open>return best\<close> leaves of \<open>best\<close> in the Backup loops: a rate is set, the
  tiers and the error are untouched.
\<close>

definition found_from :: "PricingResult \<Rightarrow> PricingResult \<Rightarrow> bool" where
  "found_from best r \<longleftrightarrow>
     rate_per_gb_month r \<noteq> None \<and> tiers r = tiers best \<and> error r = error best"

text \<open>
  The invariant of the S3 loops: while the triples are collected, \<^verbatim>\<open>result\<close> holds
  no rate, no tiers and no error.
\<close>

definition scan_inv :: "s3_state \<Rightarrow> bool" where
  "scan_inv st \<longleftrightarrow>
     rate_per_gb_month (snd st) = None \<and> tiers (snd st) = [] \<and> error (snd st) = None"

section \<open>Two example environments\<close>

text \<open>
  \<^verbatim>\<open>str.lower\<close> and \<^verbatim>\<open>str.strip\<close> on ASCII strings; \<^verbatim>\<open>strip\<close> removes the characters
  that \<^verbatim>\<open>str.isspace\<close> accepts, in ASCII the blank, the five characters
  \<^verbatim>\<open>0x09\<close> to \<^verbatim>\<open>0x0D\<close> and the four separators \<^verbatim>\<open>0x1C\<close> to \<^verbatim>\<open>0x1F\<close>.
\<close>

definition ascii_lower :: "string \<Rightarrow> string" where
  "ascii_lower s =
     map (\<lambda>c. case map_of (zip ''ABCDEFGHIJKLMNOPQRSTUVWXYZ'' ''abcdefghijklmnopqrstuvwxyz'') c of
                 Some l \<Rightarrow> l | None \<Rightarrow> c) s"

definition ascii_space :: "char \<Rightarrow> bool" where
  "ascii_space c \<longleftrightarrow>
     c \<in> set [CHR '' '', CHR 0x09, CHR 0x0A, CHR 0x0B, CHR 0x0C, CHR 0x0D,
               CHR 0x1C, CHR 0x1D, CHR 0x1E, CHR 0x1F]"

definition ascii_strip :: "string \<Rightarrow> string" where
  "ascii_strip s = rev (dropWhile ascii_space (rev (dropWhile ascii_space s)))"

text \<open>
  \<^verbatim>\<open>float\<close> on the values of the examples: a number is itself, a Boolean is 1 or
  0, the strings of the example document are the numbers they spell; the
  examples hold no other numeric string, so any other string is a
  \<^verbatim>\<open>ValueError\<close>; a list, a dictionary and \<^verbatim>\<open>None\<close> are a \<^verbatim>\<open>TypeError\<close>.
\<close>

definition demo_float :: "json \<Rightarrow> exn + float64" where
  "demo_float v =
     (case v of
        JNum x \<Rightarrow> Inr x
      | JBool b \<Rightarrow> Inr (Finite (if b then 1 else 0))
      | JStr s \<Rightarrow>
          (case map_of [(''0'', Finite 0), (''51200'', Finite 51200), (''Inf'', PosInf),
                        (''0.05'', Finite (5 / 100)), (''0.04'', Finite (4 / 100))] s of
             Some x \<Rightarrow> Inr x
           | None \<Rightarrow> Inl ValueError)
      | _ \<Rightarrow> Inl TypeError)"

text \<open>
  A price list in the format of the public offer files: one storage product in
  N. Virginia whose on-demand term has two price dimensions, listed with the
  upper tier first.
\<close>

definition demo_document :: json where
  "demo_document =
     JObj
      [(''products'',
        JObj [(''SKU1'',
               JObj [(''attributes'',
                      JObj [(''location'', JStr ''US East (N. Virginia)''),
                            (''productFamily'', JStr ''Storage''),
                            (''storageClass'', JStr ''General Purpose'')])])]),
       (''terms'',
        JObj [(''OnDemand'',
               JObj [(''SKU1'',
                      JObj [(''SKU1.JRTCKXETXF'',
                             JObj [(''priceDimensions'',
                                    JObj [(''D2'',
                                           JObj [(''unit'', JStr ''GB-Mo''),
                                                 (''beginRange'', JStr ''51200''),
                                                 (''endRange'', JStr ''Inf''),
                                                 (''pricePerUnit'',
                                                  JObj [(''USD'', JStr ''0.04'')])]),
                                          (''D1'',
                                           JObj [(''unit'', JStr ''GB-Mo''),
                                                 (''beginRange'', JStr ''0''),
                                                 (''endRange'', JStr ''51200''),
                                                 (''pricePerUnit'',
                                                  JObj [(''USD'', JStr ''0.05'')])])])])])])])]"

text \<open>
  \<open>demo_online\<close>: the index of offers cannot be fetched, the global offer files of
  AWS Backup and of S3 both hold the example document, and there are no AWS
  credentials. \<open>demo_offline\<close>: no URL can be fetched and there are no credentials.
\<close>

definition demo_online :: env where
  "demo_online =
     \<lparr>http_get =
        (\<lambda>url. if url = get_offer_url_global SERVICE_CODE_BACKUP
                   \<or> url = get_offer_url_global SERVICE_CODE_S3
                then Inr demo_document else Inl ''HTTP 404: Not Found''),
      py_float = demo_float,
      py_lower = ascii_lower,
      py_strip = ascii_strip,
      boto3_client = Inl (NoCredentialsError, ''Unable to locate credentials'')\<rparr>"

definition demo_offline :: env where
  "demo_offline =
     \<lparr>http_get = (\<lambda>url. Inl ''HTTP 404: Not Found''),
      py_float = demo_float,
      py_lower = ascii_lower,
      py_strip = ascii_strip,
      boto3_client = Inl (NoCredentialsError, ''Unable to locate credentials'')\<rparr>"

section \<open>Properties of the cost engine\<close>

lemma band_well_formed_width:
  "band_well_formed band \<Longrightarrow> 0 < remaining \<Longrightarrow> 0 \<le> band_width remaining band"
  by (cases "to_gb band") (simp_all add: band_well_formed_def band_width_def)

lemma cost_from_tiers_loop_spec:
  "list_all band_well_formed bands \<Longrightarrow>
   cost_from_tiers_loop tot remaining bands = tot + tiered_cost_spec remaining bands"
proof (induction bands arbitrary: tot remaining)
  case Nil
  show ?case by simp
next
  case (Cons band rest)
  show ?case
  proof (cases "remaining \<le> 0")
    case True
    then show ?thesis by simp
  next
    case False
    define w where "w = band_width remaining band"
    have wf: "band_well_formed band" and rest: "list_all band_well_formed rest"
      using Cons.prems by simp_all
    have w0: "0 \<le> w"
      using band_well_formed_width [OF wf, of remaining] False by (simp add: w_def)
    have size: "py_min remaining w = min remaining w"
      by (simp add: py_min_def min_def)
    have step:
      "cost_from_tiers_loop tot remaining (band # rest) =
       cost_from_tiers_loop
         (if 0 < min remaining w
          then tot + min remaining w * TierBand.rate_per_gb_month band else tot)
         (remaining - min remaining w) rest"
      using False size by (simp add: w_def band_width_def Let_def)
    have billed:
      "(if 0 < min remaining w
        then tot + min remaining w * TierBand.rate_per_gb_month band else tot) =
       tot + min remaining w * TierBand.rate_per_gb_month band"
      using w0 False by (auto simp: min_def)
    have "cost_from_tiers_loop tot remaining (band # rest) =
          tot + min remaining w * TierBand.rate_per_gb_month band
          + tiered_cost_spec (remaining - min remaining w) rest"
      by (simp only: step billed Cons.IH [OF rest])
    also have "\<dots> = tot + tiered_cost_spec remaining (band # rest)"
      using False by (simp add: w_def)
    finally show ?thesis .
  qed
qed

text \<open>
  C7, as the claim states it, fails: the band \<open>[10, 5)\<close> at rate 1 is a one-band
  list (so sorted by \<open>from_gb\<close>); for a volume of 100 GB the claimed walk bills
  \<open>min 100 (5 - 10) = -5\<close> and accumulates \<open>-5\<close>, whereas the code guards the
  accumulation with \<^verbatim>\<open>if band_size > 0\<close> and returns \<open>0\<close>.
\<close>

theorem cost_from_tiers_walk_counterexample:
  "sorted (map from_gb [\<lparr>from_gb = 10, to_gb = Fin 5, rate_per_gb_month = 1\<rparr>])
   \<and> cost_from_tiers 100 [\<lparr>from_gb = 10, to_gb = Fin 5, rate_per_gb_month = 1\<rparr>] = 0
   \<and> tiered_cost_spec 100 [\<lparr>from_gb = 10, to_gb = Fin 5, rate_per_gb_month = 1\<rparr>] = - 5
   \<and> cost_from_tiers 100 [\<lparr>from_gb = 10, to_gb = Fin 5, rate_per_gb_month = 1\<rparr>]
       \<noteq> tiered_cost_spec 100 [\<lparr>from_gb = 10, to_gb = Fin 5, rate_per_gb_month = 1\<rparr>]"
  by (simp add: cost_from_tiers_def py_min_def band_width_def)

text \<open>
  C7, amended: for every volume and every list of well-formed tier bands (no
  bounded band has \<open>to_gb\<close> below \<open>from_gb\<close>), in the order given,
  \<open>cost_from_tiers\<close> bills \<open>min remaining width\<close> per band (the width of an
  open-ended band being what remains), accumulates billed quantity times rate and
  stops once nothing remains. For the bands \<open>[0, 51200)\<close> at 0.023 and
  \<open>[51200, \<infinity>)\<close> at 0.022, 40 * 1024 GB cost \<open>40 * 1024 * 0.023\<close> and 60 * 1024 GB
  cost \<open>50 * 1024 * 0.023 + 10 * 1024 * 0.022\<close>.
\<close>

theorem cost_from_tiers_walk:
  "(list_all band_well_formed bands \<longrightarrow>
      cost_from_tiers gb bands = tiered_cost_spec gb bands)
   \<and> cost_from_tiers (40 * 1024)
        [\<lparr>from_gb = 0, to_gb = Fin 51200, rate_per_gb_month = 0.023\<rparr>,
         \<lparr>from_gb = 51200, to_gb = PInf, rate_per_gb_month = 0.022\<rparr>]
       = 40 * 1024 * 0.023
   \<and> cost_from_tiers (60 * 1024)
        [\<lparr>from_gb = 0, to_gb = Fin 51200, rate_per_gb_month = 0.023\<rparr>,
         \<lparr>from_gb = 51200, to_gb = PInf, rate_per_gb_month = 0.022\<rparr>]
       = 50 * 1024 * 0.023 + 10 * 1024 * 0.022"
proof (intro conjI impI)
  assume "list_all band_well_formed bands"
  then show "cost_from_tiers gb bands = tiered_cost_spec gb bands"
    by (simp add: cost_from_tiers_def cost_from_tiers_loop_spec)
next
  show "cost_from_tiers (40 * 1024)
        [\<lparr>from_gb = 0, to_gb = Fin 51200, rate_per_gb_month = 0.023\<rparr>,
         \<lparr>from_gb = 51200, to_gb = PInf, rate_per_gb_month = 0.022\<rparr>]
       = 40 * 1024 * 0.023"
    by (simp add: cost_from_tiers_def py_min_def)
next
  show "cost_from_tiers (60 * 1024)
        [\<lparr>from_gb = 0, to_gb = Fin 51200, rate_per_gb_month = 0.023\<rparr>,
         \<lparr>from_gb = 51200, to_gb = PInf, rate_per_gb_month = 0.022\<rparr>]
       = 50 * 1024 * 0.023 + 10 * 1024 * 0.022"
    by (simp add: cost_from_tiers_def py_min_def)
qed

theorem cost_from_tiers_walk_witness:
  "list_all band_well_formed
     [\<lparr>from_gb = 0, to_gb = Fin 100, rate_per_gb_month = 2\<rparr>,
      \<lparr>from_gb = 100, to_gb = PInf, rate_per_gb_month = 1\<rparr>]
   \<and> cost_from_tiers 150
       [\<lparr>from_gb = 0, to_gb = Fin 100, rate_per_gb_month = 2\<rparr>,
        \<lparr>from_gb = 100, to_gb = PInf, rate_per_gb_month = 1\<rparr>]
     = tiered_cost_spec 150
       [\<lparr>from_gb = 0, to_gb = Fin 100, rate_per_gb_month = 2\<rparr>,
        \<lparr>from_gb = 100, to_gb = PInf, rate_per_gb_month = 1\<rparr>]
   \<and> tiered_cost_spec 150
       [\<lparr>from_gb = 0, to_gb = Fin 100, rate_per_gb_month = 2\<rparr>,
        \<lparr>from_gb = 100, to_gb = PInf, rate_per_gb_month = 1\<rparr>] = 250"
proof -
  have wf:
    "list_all band_well_formed
       [\<lparr>from_gb = 0, to_gb = Fin 100, rate_per_gb_month = 2\<rparr>,
        \<lparr>from_gb = 100, to_gb = PInf, rate_per_gb_month = 1\<rparr>]"
    by (simp add: band_well_formed_def)
  have spec:
    "tiered_cost_spec 150
       [\<lparr>from_gb = 0, to_gb = Fin 100, rate_per_gb_month = 2\<rparr>,
        \<lparr>from_gb = 100, to_gb = PInf, rate_per_gb_month = 1\<rparr>] = 250"
    by (simp add: band_width_def)
  from wf spec show ?thesis
    using cost_from_tiers_walk
      [of "[\<lparr>from_gb = 0, to_gb = Fin 100, rate_per_gb_month = 2\<rparr>,
            \<lparr>from_gb = 100, to_gb = PInf, rate_per_gb_month = 1\<rparr>]" 150]
    by blast
qed

text \<open>
  C8: for every volume \<open>g \<ge> 0\<close> and rate \<open>r\<close>, the tiered cost against the single
  unbounded band \<open>[0, \<infinity>)\<close> at rate \<open>r\<close> is \<open>g * r\<close>, the flat-rate cost.
\<close>

theorem cost_from_tiers_single_unbounded:
  "0 \<le> g \<Longrightarrow>
   cost_from_tiers g [\<lparr>from_gb = 0, to_gb = PInf, rate_per_gb_month = r\<rparr>] = g * r
   \<and> cost_from_tiers g [\<lparr>from_gb = 0, to_gb = PInf, rate_per_gb_month = r\<rparr>]
       = cost_from_flat_rate g r"
  by (simp add: cost_from_tiers_def cost_from_flat_rate_def py_min_def)

theorem cost_from_tiers_single_unbounded_witness:
  "(0::real) \<le> 1000
   \<and> cost_from_tiers 1000 [\<lparr>from_gb = 0, to_gb = PInf, rate_per_gb_month = 0.023\<rparr>] = 23
   \<and> cost_from_flat_rate 1000 0.023 = 23"
  using cost_from_tiers_single_unbounded [of 1000 "0.023"] by simp






text \<open>
  C10: \<open>cost_from_tiers\<close> returns exactly 0 whenever the volume is zero or
  negative, whatever the tiers, and exactly 0 for the empty tier list, whatever
  the volume; nothing is raised.
\<close>

theorem cost_from_tiers_zero_cases:
  "(gb \<le> 0 \<longrightarrow> cost_from_tiers gb bands = 0) \<and> cost_from_tiers gb [] = 0"
  by (cases bands) (simp_all add: cost_from_tiers_def)

theorem cost_from_tiers_zero_cases_witness:
  "(- 5 :: real) \<le> 0
   \<and> cost_from_tiers (- 5) [\<lparr>from_gb = 0, to_gb = Fin 100, rate_per_gb_month = 2\<rparr>] = 0
   \<and> cost_from_tiers 7 [] = 0"
  using cost_from_tiers_zero_cases
    [of "- 5" "[\<lparr>from_gb = 0, to_gb = Fin 100, rate_per_gb_month = 2\<rparr>]"]
    cost_from_tiers_zero_cases [of 7 "[]"]
  by simp

section \<open>The shapes of the results\<close>

text \<open>
  Every result of the public client has one of the three shapes of
  \<open>public_shape\<close>, every result of the resolver one of \<open>result_shape\<close>. The
  proofs follow the loops: a Backup loop returns \<open>best\<close> with a rate, an S3 loop
  keeps \<open>scan_inv\<close>, and the common end of the S3 resolvers turns the triples
  into one shape.
\<close>

lemma bind_exn_simps [simp]:
  "bind_exn (Inl ex) f = Inl ex"
  "bind_exn (Inr x) f = f x"
  by (simp_all add: bind_exn_def)

lemma bind_exn_eq_Inr:
  "bind_exn m f = Inr y \<longleftrightarrow> (\<exists>x. m = Inr x \<and> f x = Inr y)"
  by (cases m) simp_all

lemma first_some_found:
  "first_some f xs = Inr (Some r) \<Longrightarrow> \<exists>x \<in> set xs. f x = Inr (Some r)"
proof (induction xs)
  case Nil
  then show ?case by simp
next
  case (Cons a xs)
  then show ?case
    by (cases "f a") (auto split: option.splits)
qed

lemma fold_exn_invariant:
  assumes "fold_exn f xs s = Inr s'" and "P s"
    and "\<And>x t t'. x \<in> set xs \<Longrightarrow> P t \<Longrightarrow> f x t = Inr t' \<Longrightarrow> P t'"
  shows "P s'"
  using assms
proof (induction xs arbitrary: s)
  case Nil
  then show ?case by simp
next
  case (Cons a xs)
  from Cons.prems(1) obtain t where t: "f a s = Inr t" and rest: "fold_exn f xs t = Inr s'"
    by (cases "f a s") simp_all
  have "P t" using Cons.prems(3) [of a s t] Cons.prems(2) t by simp
  show ?case
  proof (rule Cons.IH [OF rest \<open>P t\<close>])
    fix x u u'
    assume "x \<in> set xs" "P u" "f x u = Inr u'"
    then show "P u'" using Cons.prems(3) [of x u u'] by simp
  qed
qed

lemma backup_public_dim_found:
  assumes "backup_public_dim e cur best k attrs pdim = Inr (Some r)"
  shows "found_from best r"
proof (cases "pub_parse_price_dimension e pdim cur")
  case (Inl ex)
  with assms show ?thesis by (simp add: backup_public_dim_def)
next
  case (Inr pr)
  obtain ppu ul where pr: "pr = (ppu, ul)" by (cases pr)
  show ?thesis
  proof (cases ppu)
    case None
    with assms Inr pr show ?thesis by (simp add: backup_public_dim_def)
  next
    case (Some p)
    show ?thesis
    proof (cases "pub_normalize_to_gb_month e p ul")
      case (Inl ex)
      with assms Inr pr Some show ?thesis by (simp add: backup_public_dim_def)
    next
      case norm: (Inr rate)
      show ?thesis
      proof (cases rate)
        case None
        with assms Inr pr Some norm show ?thesis by (simp add: backup_public_dim_def)
      next
        case rate: (Some x)
        with assms Inr pr Some norm show ?thesis
          by (cases "float_le (Finite 0) x")
            (auto simp: backup_public_dim_def found_from_def)
      qed
    qed
  qed
qed

lemma backup_public_term_found:
  "backup_public_term e cur best k attrs td = Inr (Some r) \<Longrightarrow> found_from best r"
  by (auto simp: backup_public_term_def bind_exn_eq_Inr
      dest!: first_some_found backup_public_dim_found)

lemma backup_public_product_found:
  "backup_public_product e location cur od best sp = Inr (Some r) \<Longrightarrow> found_from best r"
  by (cases sp)
    (auto simp: backup_public_product_def bind_exn_eq_Inr Let_def
      split: if_splits dest!: first_some_found backup_public_term_found)

lemma first_some_or_default:
  assumes "bind_exn (first_some f xs)
             (\<lambda>found. case found of Some x \<Rightarrow> Inr x | None \<Rightarrow> Inr d) = Inr r"
  shows "(\<exists>x \<in> set xs. f x = Inr (Some r)) \<or> r = d"
proof (cases "first_some f xs")
  case (Inl ex)
  with assms show ?thesis by simp
next
  case (Inr found)
  with assms show ?thesis
    by (cases found) (auto dest: first_some_found)
qed

lemma backup_public_scan_shape:
  assumes "backup_public_scan e location cur data url = Inr r"
  shows "public_shape r \<and> tiers r = []"
proof -
  define best where "best = PricingResult_default
             \<lparr>raw_filter_used :=
                JObj [(''service'', JStr ''AWS Backup (public)''),
                      (''location'', JStr location),
                      (''url'', json_of_url url)]\<rparr>"
  define miss where "miss = best\<lparr>error := Some
    ''AWS Backup storage not in public price list for this region. S3 comparison below uses public pricing.''\<rparr>"
  have unf: "backup_public_scan e location cur data url =
     bind_exn (dict_get data ''products'') (\<lambda>p.
     bind_exn (dict_get data ''terms'') (\<lambda>t.
     bind_exn (dict_get (py_or t (JObj [])) ''OnDemand'') (\<lambda>od.
     bind_exn (dict_items (py_or p (JObj []))) (\<lambda>items.
     bind_exn (first_some (backup_public_product e location cur (py_or od (JObj [])) best) items)
       (\<lambda>found. case found of Some r \<Rightarrow> Inr r | None \<Rightarrow> Inr miss)))))"
    unfolding backup_public_scan_def Let_def best_def miss_def ..
  from assms have "\<exists>od items found.
      first_some (backup_public_product e location cur od best) items = Inr found
      \<and> (case found of Some r \<Rightarrow> Inr r | None \<Rightarrow> Inr miss) = (Inr r :: exn + PricingResult)"
    unfolding unf bind_exn_eq_Inr by blast
  then obtain od items found where
    f: "first_some (backup_public_product e location cur od best) items = Inr found"
    and c: "(case found of Some r \<Rightarrow> Inr r | None \<Rightarrow> Inr miss) = (Inr r :: exn + PricingResult)"
    by blast
  have b: "tiers best = []" "error best = None"
    by (simp_all add: best_def PricingResult_default_def)
  show ?thesis
  proof (cases found)
    case None
    with c have "r = miss" by simp
    then show ?thesis
      by (simp add: miss_def best_def PricingResult_default_def public_shape_def str_truthy_def)
  next
    case (Some x)
    with c have "x = r" by simp
    with f Some have "found_from best r"
      by (auto dest!: first_some_found backup_public_product_found)
    with b show ?thesis
      by (simp add: found_from_def public_shape_def)
  qed
qed

lemma resolve_aws_backup_storage_public_shape:
  assumes "resolve_aws_backup_storage_public e rc cur = Inr r"
  shows "public_shape r \<and> tiers r = []"
proof (cases "get_location_for_region e rc")
  case None
  with assms show ?thesis
    by (auto simp: resolve_aws_backup_storage_public_def public_shape_def
        PricingResult_default_def str_truthy_def)
next
  case (Some location)
  show ?thesis
  proof (cases "location = []")
    case True
    with assms Some show ?thesis
      by (auto simp: resolve_aws_backup_storage_public_def public_shape_def
          PricingResult_default_def str_truthy_def)
  next
    case False
    from assms Some False obtain data fetch_error url where
      fetch: "backup_public_fetch e rc = Inr (data, fetch_error, url)"
      by (cases "backup_public_fetch e rc") (auto simp: resolve_aws_backup_storage_public_def)
    show ?thesis
    proof (cases "truthy data")
      case False
      with assms Some \<open>location \<noteq> []\<close> fetch show ?thesis
        by (auto simp: resolve_aws_backup_storage_public_def public_shape_def
            PricingResult_default_def str_truthy_def)
    next
      case True
      with assms Some \<open>location \<noteq> []\<close> fetch
      have "backup_public_scan e location cur data url = Inr r"
        by (simp add: resolve_aws_backup_storage_public_def)
      then show ?thesis by (rule backup_public_scan_shape)
    qed
  qed
qed

lemma s3_public_dim_inv:
  assumes "s3_public_dim e cur k attrs pdim st = Inr st'" and "scan_inv st"
  shows "scan_inv st'"
proof (cases "pub_parse_price_dimension e pdim cur")
  case (Inl ex)
  with assms show ?thesis by (simp add: s3_public_dim_def)
next
  case (Inr pr)
  obtain ppu ul where pr: "pr = (ppu, ul)" by (cases pr)
  show ?thesis
  proof (cases ppu)
    case None
    with assms Inr pr show ?thesis by (simp add: s3_public_dim_def)
  next
    case (Some p)
    show ?thesis
    proof (cases "pub_normalize_to_gb_month e p ul")
      case (Inl ex)
      with assms Inr pr Some show ?thesis by (simp add: s3_public_dim_def)
    next
      case norm: (Inr rate)
      show ?thesis
      proof (cases rate)
        case None
        with assms Inr pr Some norm show ?thesis by (simp add: s3_public_dim_def)
      next
        case rate: (Some x)
        show ?thesis
        proof (cases "float_lt x (Finite 0)")
          case True
          with assms Inr pr Some norm rate show ?thesis by (simp add: s3_public_dim_def)
        next
          case False
          show ?thesis
          proof (cases "range_from_dim e pdim")
            case (Inl ex)
            with assms Inr pr Some norm rate False show ?thesis
              by (simp add: s3_public_dim_def)
          next
            case rng: (Inr se)
            obtain s t where se: "se = (s, t)" by (cases se)
            obtain ts res where st: "st = (ts, res)" by (cases st)
            from assms Inr pr Some norm rate False rng se st show ?thesis
              by (auto simp: s3_public_dim_def scan_inv_def Let_def)
          qed
        qed
      qed
    qed
  qed
qed

lemma s3_public_term_inv:
  assumes "s3_public_term e cur k attrs td st = Inr st'" and "scan_inv st"
  shows "scan_inv st'"
proof -
  from assms(1) obtain dims :: "(string \<times> json) list" where
    f: "fold_exn (\<lambda>(dim_id, pdim). s3_public_dim e cur k attrs pdim) dims st = Inr st'"
    unfolding s3_public_term_def bind_exn_eq_Inr by (elim exE conjE) (rule that, assumption)
  show ?thesis
  proof (rule fold_exn_invariant [where P = scan_inv, OF f assms(2)])
    fix x t t'
    assume "scan_inv t" "(case x of (dim_id, pdim) \<Rightarrow> s3_public_dim e cur k attrs pdim) t = Inr t'"
    then show "scan_inv t'"
      by (cases x) (auto dest: s3_public_dim_inv)
  qed
qed

lemma s3_public_product_inv:
  assumes "s3_public_product e location sc cur od sp st = Inr st'" and "scan_inv st"
  shows "scan_inv st'"
proof -
  obtain k product where sp: "sp = (k, product)" by (cases sp)
  have "st' = st \<or> (\<exists>attrs (entries :: (string \<times> json) list).
      fold_exn (\<lambda>(term_sku, term_detail). s3_public_term e cur k attrs term_detail)
        entries st = Inr st')"
    using assms(1) unfolding sp s3_public_product_def Let_def prod.case
    by (auto simp: bind_exn_eq_Inr split: if_splits)
  then show ?thesis
  proof
    assume "st' = st"
    with assms(2) show ?thesis by simp
  next
    assume "\<exists>attrs (entries :: (string \<times> json) list).
      fold_exn (\<lambda>(term_sku, term_detail). s3_public_term e cur k attrs term_detail)
        entries st = Inr st'"
    then obtain attrs and entries :: "(string \<times> json) list" where
      f: "fold_exn (\<lambda>(term_sku, term_detail). s3_public_term e cur k attrs term_detail)
        entries st = Inr st'" by blast
    show ?thesis
    proof (rule fold_exn_invariant [where P = scan_inv, OF f assms(2)])
      fix x t t'
      assume "scan_inv t"
        "(case x of (term_sku, term_detail) \<Rightarrow> s3_public_term e cur k attrs term_detail) t = Inr t'"
      then show "scan_inv t'"
        by (cases x) (auto dest: s3_public_term_inv)
    qed
  qed
qed

lemma s3_public_collect_inv:
  assumes "s3_public_collect e location sc cur data url = Inr st"
  shows "scan_inv st"
proof -
  define result where "result = PricingResult_default
             \<lparr>raw_filter_used :=
                JObj [(''service'', JStr ''Amazon S3 (public)''),
                      (''storageClass'', JStr sc),
                      (''location'', JStr location),
                      (''url'', json_of_url url)]\<rparr>"
  have unf: "s3_public_collect e location sc cur data url =
     bind_exn (dict_get data ''products'') (\<lambda>p.
     bind_exn (dict_get data ''terms'') (\<lambda>t.
     bind_exn (dict_get (py_or t (JObj [])) ''OnDemand'') (\<lambda>od.
     bind_exn (dict_items (py_or p (JObj []))) (\<lambda>items.
       fold_exn (s3_public_product e location sc cur (py_or od (JObj []))) items
         ([], result)))))"
    unfolding s3_public_collect_def Let_def result_def ..
  from assms obtain od items where
    f: "fold_exn (s3_public_product e location sc cur od) items ([], result) = Inr st"
    unfolding unf bind_exn_eq_Inr by (elim exE conjE) (rule that, assumption)
  have i: "scan_inv ([], result)"
    by (simp add: scan_inv_def result_def PricingResult_default_def)
  show ?thesis
    by (rule fold_exn_invariant [where P = scan_inv, OF f i]) (rule s3_public_product_inv)
qed

lemma length_insert_by_start: "length (insert_by_start x ys) = Suc (length ys)"
  by (induction ys) simp_all

lemma length_foldl_insert_by_start:
  "length (foldl (\<lambda>sorted_part x. insert_by_start x sorted_part) acc xs)
     = length acc + length xs"
  by (induction xs arbitrary: acc) (simp_all add: length_insert_by_start)

lemma length_sort_by_start: "length (sort_by_start xs) = length xs"
  by (simp add: sort_by_start_def length_foldl_insert_by_start)

lemma sort_by_start_eq_Nil: "sort_by_start xs = [] \<longleftrightarrow> xs = []"
  using length_sort_by_start [of xs] by (metis length_0_conv)

lemma s3_collapse_cases:
  assumes "scan_inv st"
  shows "(fst st = [] \<and> error (s3_collapse msg st) = Some msg
            \<and> rate_per_gb_month (s3_collapse msg st) = None \<and> tiers (s3_collapse msg st) = [])
         \<or> (fst st \<noteq> [] \<and> error (s3_collapse msg st) = None
            \<and> rate_per_gb_month (s3_collapse msg st) \<noteq> None \<and> tiers (s3_collapse msg st) = [])
         \<or> (fst st \<noteq> [] \<and> error (s3_collapse msg st) = None
            \<and> rate_per_gb_month (s3_collapse msg st) = None \<and> tiers (s3_collapse msg st) \<noteq> [])"
proof -
  obtain ts res where st: "st = (ts, res)" by (cases st)
  from assms st have res: "rate_per_gb_month res = None" "tiers res = []" "error res = None"
    by (simp_all add: scan_inv_def)
  show ?thesis
  proof (cases "ts = []")
    case True
    with st res show ?thesis by (simp add: s3_collapse_def)
  next
    case False
    then have ne: "sort_by_start ts \<noteq> []" by (simp add: sort_by_start_eq_Nil)
    show ?thesis
    proof (cases "length (sort_by_start ts) = 1 \<and> fst (snd (hd (sort_by_start ts))) = PosInf")
      case True
      with False st res show ?thesis by (simp add: s3_collapse_def Let_def)
    next
      case no: False
      with False st res ne show ?thesis by (auto simp: s3_collapse_def Let_def)
    qed
  qed
qed

lemma s3_collapse_shape:
  assumes "scan_inv st" and "msg \<noteq> []"
  shows "public_shape (s3_collapse msg st)"
  using s3_collapse_cases [OF assms(1), of msg] assms(2)
  by (auto simp: public_shape_def str_truthy_def)

lemma resolve_s3_storage_public_shape:
  assumes "resolve_s3_storage_public e rc sc cur = Inr r"
  shows "public_shape r"
proof (cases "get_location_for_region e rc")
  case None
  with assms show ?thesis
    by (auto simp: resolve_s3_storage_public_def public_shape_def
        PricingResult_default_def str_truthy_def)
next
  case (Some location)
  show ?thesis
  proof (cases "location = []")
    case True
    with assms Some show ?thesis
      by (auto simp: resolve_s3_storage_public_def public_shape_def
          PricingResult_default_def str_truthy_def)
  next
    case False
    from assms Some False obtain data fetch_error url where
      fetch: "s3_public_fetch e rc = Inr (data, fetch_error, url)"
      by (cases "s3_public_fetch e rc") (auto simp: resolve_s3_storage_public_def)
    show ?thesis
    proof (cases "truthy data")
      case False
      with assms Some \<open>location \<noteq> []\<close> fetch show ?thesis
        by (auto simp: resolve_s3_storage_public_def public_shape_def
            PricingResult_default_def str_truthy_def)
    next
      case True
      with assms Some \<open>location \<noteq> []\<close> fetch obtain st where
        c: "s3_public_collect e location sc cur data url = Inr st"
        and r: "r = s3_collapse
          ''No S3 storage price found for storage class and location in public price list'' st"
        by (cases "s3_public_collect e location sc cur data url")
          (auto simp: resolve_s3_storage_public_def)
      from c have "scan_inv st" by (rule s3_public_collect_inv)
      then show ?thesis unfolding r by (rule s3_collapse_shape) simp
    qed
  qed
qed

lemma public_shape_result_shape: "public_shape r \<Longrightarrow> result_shape r"
  by (auto simp: public_shape_def result_shape_def str_truthy_def split: option.splits)

lemma backup_api_dim_found:
  assumes "backup_api_dim e cur best product attrs term_type pdim = Inr (Some r)"
  shows "found_from best r"
proof (cases "parse_price_dimension e pdim cur")
  case (Inl ex)
  with assms show ?thesis by (simp add: backup_api_dim_def)
next
  case (Inr pr)
  obtain ppu ul where pr: "pr = (ppu, ul)" by (cases pr)
  show ?thesis
  proof (cases ppu)
    case None
    with assms Inr pr show ?thesis by (simp add: backup_api_dim_def)
  next
    case (Some p)
    show ?thesis
    proof (cases "normalize_to_gb_month e p ul")
      case (Inl ex)
      with assms Inr pr Some show ?thesis by (simp add: backup_api_dim_def)
    next
      case norm: (Inr rate)
      show ?thesis
      proof (cases rate)
        case None
        with assms Inr pr Some norm show ?thesis by (simp add: backup_api_dim_def)
      next
        case rate: (Some x)
        with assms Inr pr Some norm show ?thesis
          by (cases "float_le (Finite 0) x")
            (auto simp: backup_api_dim_def found_from_def bind_exn_eq_Inr)
      qed
    qed
  qed
qed

lemma backup_api_term_found:
  "backup_api_term e cur best product attrs term_type td = Inr (Some r) \<Longrightarrow> found_from best r"
  by (auto simp: backup_api_term_def bind_exn_eq_Inr
      dest!: first_some_found backup_api_dim_found)

lemma backup_api_on_demand_found:
  "backup_api_on_demand e cur best product = Inr (Some r) \<Longrightarrow> found_from best r"
  by (auto simp: backup_api_on_demand_def bind_exn_eq_Inr
      split: if_splits dest!: first_some_found backup_api_term_found)

lemma backup_api_any_term_found:
  "backup_api_any_term e cur best product = Inr (Some r) \<Longrightarrow> found_from best r"
  by (auto simp: backup_api_any_term_def bind_exn_eq_Inr simp del: first_some.simps
      split: if_splits dest!: first_some_found backup_api_term_found)

lemma error_shape_result_shape: "error_shape r \<Longrightarrow> result_shape r"
  by (simp add: error_shape_def result_shape_def)

lemma pricing_client_or_return_shape:
  "pricing_client_or_return e client p = (Inl r, evs) \<Longrightarrow> error_shape r"
  by (auto simp: pricing_client_or_return_def error_shape_def PricingResult_default_def
      split: option.splits sum.splits prod.splits if_splits)

lemma products_or_return_shape:
  "products_or_return c service filters p = Inl r \<Longrightarrow> error_shape r"
  by (auto simp: products_or_return_def error_shape_def PricingResult_default_def
      split: sum.splits prod.splits if_splits)

lemma backup_api_fallback_shape:
  assumes "backup_api_fallback e location cur client p = Inr (r, evs)"
  shows "result_shape r \<and> tiers r = []"
proof -
  define filters where "filters = backup_filters location"
  define best where "best = PricingResult_default
                        \<lparr>raw_filter_used :=
                           JObj [(''service'', JStr ''AWS Backup''),
                                 (''location'', JStr location),
                                 (''filters'', filters)]\<rparr>"
  define miss where "miss = best\<lparr>error := Some
                                         ''No AWS Backup storage price found for location''\<rparr>"
  have unf: "backup_api_fallback e location cur client p =
      (case pricing_client_or_return e client p of
           (Inl r, evs) \<Rightarrow> Inr (r, evs)
         | (Inr c, evs) \<Rightarrow>
             (case products_or_return c ''AWS Backup'' filters p of
                Inl r \<Rightarrow> Inr (r, evs @ [GetProducts ''AWS Backup''])
              | Inr products \<Rightarrow>
                  bind_exn (first_some (backup_api_on_demand e cur best) products)
                       (\<lambda>found1.
                          case found1 of
                            Some r \<Rightarrow> Inr (r, evs @ [GetProducts ''AWS Backup''])
                          | None \<Rightarrow>
                              bind_exn (first_some (backup_api_any_term e cur best) products)
                                (\<lambda>found2.
                                   case found2 of
                                     Some r \<Rightarrow> Inr (r, evs @ [GetProducts ''AWS Backup''])
                                   | None \<Rightarrow>
                                       Inr (miss, evs @ [GetProducts ''AWS Backup''])))))"
    unfolding backup_api_fallback_def Let_def filters_def best_def miss_def ..
  have b: "tiers best = []" "error best = None"
    by (simp_all add: best_def PricingResult_default_def)
  have m: "error_shape miss"
    by (simp add: miss_def best_def error_shape_def PricingResult_default_def)
  have fnd: "result_shape x \<and> tiers x = []" if "found_from best x" for x
    using that b by (simp add: found_from_def result_shape_def)
  have err: "result_shape x \<and> tiers x = []" if "error_shape x" for x
    using that by (simp add: error_shape_def result_shape_def)
  obtain x evs0 where pc: "pricing_client_or_return e client p = (x, evs0)"
    by (cases "pricing_client_or_return e client p")
  show ?thesis
  proof (cases x)
    case (Inl r0)
    with assms pc have "r = r0" by (simp add: unf)
    moreover from pc Inl have "error_shape r0"
      using pricing_client_or_return_shape [of e client p r0 evs0] by simp
    ultimately show ?thesis using err [of r0] by simp
  next
    case (Inr c)
    show ?thesis
    proof (cases "products_or_return c ''AWS Backup'' filters p")
      case (Inl r0)
      with assms pc Inr have "r = r0" by (simp add: unf)
      moreover from Inl have "error_shape r0" by (rule products_or_return_shape)
      ultimately show ?thesis using err [of r0] by simp
    next
      case prods: (Inr products)
      show ?thesis
      proof (cases "first_some (backup_api_on_demand e cur best) products")
        case (Inl ex)
        with assms pc Inr prods show ?thesis by (simp add: unf)
      next
        case f1: (Inr found1)
        show ?thesis
        proof (cases found1)
          case (Some r1)
          with assms pc Inr prods f1 have "r = r1" by (simp add: unf)
          with f1 Some have "found_from best r"
            by (auto dest!: first_some_found backup_api_on_demand_found)
          then show ?thesis by (rule fnd)
        next
          case None
          show ?thesis
          proof (cases "first_some (backup_api_any_term e cur best) products")
            case (Inl ex)
            with assms pc Inr prods f1 None show ?thesis by (simp add: unf)
          next
            case f2: (Inr found2)
            show ?thesis
            proof (cases found2)
              case (Some r2)
              with assms pc Inr prods f1 None f2 have "r = r2" by (simp add: unf)
              with f2 Some have "found_from best r"
                by (auto dest!: first_some_found backup_api_any_term_found)
              then show ?thesis by (rule fnd)
            next
              case n2: None
              with assms pc Inr prods f1 None f2 have "r = miss" by (simp add: unf)
              with m show ?thesis using err [of miss] by simp
            qed
          qed
        qed
      qed
    qed
  qed
qed

lemma resolve_aws_backup_storage_shape:
  assumes "resolve_aws_backup_storage e rc cur client = Inr (r, evs)"
  shows "result_shape r \<and> tiers r = []"
proof (cases "get_location_for_region e rc")
  case None
  with assms show ?thesis
    by (auto simp: resolve_aws_backup_storage_def result_shape_def PricingResult_default_def)
next
  case (Some location)
  show ?thesis
  proof (cases "location = []")
    case True
    with assms Some show ?thesis
      by (auto simp: resolve_aws_backup_storage_def result_shape_def PricingResult_default_def)
  next
    case False
    show ?thesis
    proof (cases "resolve_aws_backup_storage_public e rc cur")
      case (Inl ex)
      with assms Some False show ?thesis by (simp add: resolve_aws_backup_storage_def)
    next
      case (Inr p)
      show ?thesis
      proof (cases "\<not> str_truthy (error p) \<and> rate_per_gb_month p \<noteq> None")
        case True
        with assms Some False Inr show ?thesis
          by (auto simp: resolve_aws_backup_storage_def result_shape_def
              PricingResult_default_def)
      next
        case no: False
        with assms Some False Inr
        have "backup_api_fallback e location cur client p = Inr (r, evs)"
          by (auto simp: resolve_aws_backup_storage_def)
        then show ?thesis by (rule backup_api_fallback_shape)
      qed
    qed
  qed
qed

lemma s3_api_dim_inv:
  assumes "s3_api_dim e cur product attrs pdim st = Inr st'" and "scan_inv st"
  shows "scan_inv st'"
proof (cases "parse_price_dimension e pdim cur")
  case (Inl ex)
  with assms show ?thesis by (simp add: s3_api_dim_def)
next
  case (Inr pr)
  obtain ppu ul where pr: "pr = (ppu, ul)" by (cases pr)
  show ?thesis
  proof (cases ppu)
    case None
    with assms Inr pr show ?thesis by (simp add: s3_api_dim_def)
  next
    case (Some p)
    show ?thesis
    proof (cases "normalize_to_gb_month e p ul")
      case (Inl ex)
      with assms Inr pr Some show ?thesis by (simp add: s3_api_dim_def)
    next
      case norm: (Inr rate)
      show ?thesis
      proof (cases rate)
        case None
        with assms Inr pr Some norm show ?thesis by (simp add: s3_api_dim_def)
      next
        case rate: (Some x)
        show ?thesis
        proof (cases "float_lt x (Finite 0)")
          case True
          with assms Inr pr Some norm rate show ?thesis by (simp add: s3_api_dim_def)
        next
          case False
          show ?thesis
          proof (cases "s3_api_range e pdim")
            case (Inl ex)
            with assms Inr pr Some norm rate False show ?thesis
              by (simp add: s3_api_dim_def)
          next
            case rng: (Inr se)
            obtain s t where se: "se = (s, t)" by (cases se)
            obtain ts res where st: "st = (ts, res)" by (cases st)
            from assms Inr pr Some norm rate False rng se st show ?thesis
              by (auto simp: s3_api_dim_def scan_inv_def Let_def bind_exn_eq_Inr
                  split: if_splits)
          qed
        qed
      qed
    qed
  qed
qed

lemma s3_api_term_inv:
  assumes "s3_api_term e cur product attrs td st = Inr st'" and "scan_inv st"
  shows "scan_inv st'"
proof -
  from assms(1) obtain dims :: "(string \<times> json) list" where
    f: "fold_exn (\<lambda>(dim_id, pdim). s3_api_dim e cur product attrs pdim) dims st = Inr st'"
    unfolding s3_api_term_def bind_exn_eq_Inr by (elim exE conjE) (rule that, assumption)
  show ?thesis
  proof (rule fold_exn_invariant [where P = scan_inv, OF f assms(2)])
    fix x t t'
    assume "scan_inv t"
      "(case x of (dim_id, pdim) \<Rightarrow> s3_api_dim e cur product attrs pdim) t = Inr t'"
    then show "scan_inv t'"
      by (cases x) (auto dest: s3_api_dim_inv)
  qed
qed

lemma s3_api_product_inv:
  assumes "s3_api_product e cur product st = Inr st'" and "scan_inv st"
  shows "scan_inv st'"
proof -
  have "st' = st \<or> (\<exists>attrs (entries :: (string \<times> json) list).
      fold_exn (\<lambda>(sku_key, term_detail). s3_api_term e cur product attrs term_detail)
        entries st = Inr st')"
    using assms(1) unfolding s3_api_product_def
    by (auto simp: bind_exn_eq_Inr split: if_splits)
  then show ?thesis
  proof
    assume "st' = st"
    with assms(2) show ?thesis by simp
  next
    assume "\<exists>attrs (entries :: (string \<times> json) list).
      fold_exn (\<lambda>(sku_key, term_detail). s3_api_term e cur product attrs term_detail)
        entries st = Inr st'"
    then obtain attrs and entries :: "(string \<times> json) list" where
      f: "fold_exn (\<lambda>(sku_key, term_detail). s3_api_term e cur product attrs term_detail)
        entries st = Inr st'" by blast
    show ?thesis
    proof (rule fold_exn_invariant [where P = scan_inv, OF f assms(2)])
      fix x t t'
      assume "scan_inv t"
        "(case x of (sku_key, term_detail) \<Rightarrow> s3_api_term e cur product attrs term_detail) t
           = Inr t'"
      then show "scan_inv t'"
        by (cases x) (auto dest: s3_api_term_inv)
    qed
  qed
qed

lemma s3_api_fallback_shape:
  assumes "s3_api_fallback e location sc cur client p = Inr (r, evs)"
  shows "result_shape r"
proof -
  define filters where "filters = s3_filters location sc"
  define result where "result = PricingResult_default
                        \<lparr>raw_filter_used :=
                           JObj [(''service'', JStr ''Amazon S3''),
                                 (''storageClass'', JStr sc),
                                 (''location'', JStr location)]\<rparr>"
  have unf: "s3_api_fallback e location sc cur client p =
      (case pricing_client_or_return e client p of
           (Inl r, evs) \<Rightarrow> Inr (r, evs)
         | (Inr c, evs) \<Rightarrow>
             (case products_or_return c ''Amazon S3'' filters p of
                Inl r \<Rightarrow> Inr (r, evs @ [GetProducts ''Amazon S3''])
              | Inr products \<Rightarrow>
                  bind_exn (fold_exn (s3_api_product e cur) products ([], result))
                       (\<lambda>st.
                          Inr (s3_collapse
                                 ''No S3 storage price found for storage class and location''
                                 st,
                               evs @ [GetProducts ''Amazon S3'']))))"
    unfolding s3_api_fallback_def Let_def filters_def result_def ..
  have i: "scan_inv ([], result)"
    by (simp add: scan_inv_def result_def PricingResult_default_def)
  obtain x evs0 where pc: "pricing_client_or_return e client p = (x, evs0)"
    by (cases "pricing_client_or_return e client p")
  show ?thesis
  proof (cases x)
    case (Inl r0)
    with assms pc have "r = r0" by (simp add: unf)
    moreover from pc Inl have "error_shape r0"
      using pricing_client_or_return_shape [of e client p r0 evs0] by simp
    ultimately show ?thesis by (simp add: error_shape_result_shape)
  next
    case (Inr c)
    show ?thesis
    proof (cases "products_or_return c ''Amazon S3'' filters p")
      case (Inl r0)
      with assms pc Inr have "r = r0" by (simp add: unf)
      moreover from Inl have "error_shape r0" by (rule products_or_return_shape)
      ultimately show ?thesis by (simp add: error_shape_result_shape)
    next
      case prods: (Inr products)
      show ?thesis
      proof (cases "fold_exn (s3_api_product e cur) products ([], result)")
        case (Inl ex)
        with assms pc Inr prods show ?thesis by (simp add: unf)
      next
        case f: (Inr st)
        with assms pc Inr prods have r: "r = s3_collapse
            ''No S3 storage price found for storage class and location'' st"
          by (simp add: unf)
        have "scan_inv st"
          by (rule fold_exn_invariant [where P = scan_inv, OF f i]) (rule s3_api_product_inv)
        then have "public_shape r" unfolding r by (rule s3_collapse_shape) simp
        then show ?thesis by (rule public_shape_result_shape)
      qed
    qed
  qed
qed

lemma resolve_s3_storage_shape:
  assumes "resolve_s3_storage e rc sc cur client = Inr (r, evs)"
  shows "result_shape r"
proof (cases "get_location_for_region e rc")
  case None
  with assms show ?thesis
    by (auto simp: resolve_s3_storage_def result_shape_def PricingResult_default_def)
next
  case (Some location)
  show ?thesis
  proof (cases "location = []")
    case True
    with assms Some show ?thesis
      by (auto simp: resolve_s3_storage_def result_shape_def PricingResult_default_def)
  next
    case False
    show ?thesis
    proof (cases "resolve_s3_storage_public e rc sc cur")
      case (Inl ex)
      with assms Some False show ?thesis by (simp add: resolve_s3_storage_def)
    next
      case (Inr p)
      then have ps: "public_shape p" by (rule resolve_s3_storage_public_shape)
      show ?thesis
      proof (cases "\<not> str_truthy (error p)
                    \<and> (rate_per_gb_month p \<noteq> None \<or> tiers p \<noteq> [])")
        case True
        with assms Some False Inr have "r = PricingResult_default
                          \<lparr>rate_per_gb_month := rate_per_gb_month p,
                           tiers := tiers p,
                           currency := currency p,
                           unit := unit p,
                           sku := sku p,
                           product_attributes := product_attributes p,
                           term_code := term_code p,
                           price_dimension := price_dimension p,
                           raw_filter_used := raw_filter_used p\<rparr>"
          by (simp add: resolve_s3_storage_def)
        with ps True show ?thesis
          by (auto simp: result_shape_def public_shape_def PricingResult_default_def)
      next
        case no: False
        with assms Some False Inr
        have "s3_api_fallback e location sc cur client p = Inr (r, evs)"
          by (auto simp: resolve_s3_storage_def)
        then show ?thesis by (rule s3_api_fallback_shape)
      qed
    qed
  qed
qed

section \<open>Invariants of the pricing results\<close>

text \<open>
  Claim C4 (error exclusivity). Every \<^verbatim>\<open>PricingResult\<close> that one of the four
  operations returns (the two of the public client, the two of the resolver)
  with \<^verbatim>\<open>error\<close> set has no flat rate and an empty tier list. The operations are
  taken with any environment, region, storage class, currency and client;
  \<^verbatim>\<open>error\<close> set means not \<^verbatim>\<open>None\<close>, so an empty error text counts as set.
\<close>

theorem error_excludes_rate_and_tiers:
  "(resolve_aws_backup_storage_public e rc cur = Inr r \<and> error r \<noteq> None
      \<longrightarrow> rate_per_gb_month r = None \<and> tiers r = [])
   \<and> (resolve_s3_storage_public e rc sc cur = Inr r \<and> error r \<noteq> None
      \<longrightarrow> rate_per_gb_month r = None \<and> tiers r = [])
   \<and> (resolve_aws_backup_storage e rc cur client = Inr (r, evs) \<and> error r \<noteq> None
      \<longrightarrow> rate_per_gb_month r = None \<and> tiers r = [])
   \<and> (resolve_s3_storage e rc sc cur client = Inr (r, evs) \<and> error r \<noteq> None
      \<longrightarrow> rate_per_gb_month r = None \<and> tiers r = [])"
proof (intro conjI impI; elim conjE)
  assume "resolve_aws_backup_storage_public e rc cur = Inr r" and "error r \<noteq> None"
  then show "rate_per_gb_month r = None" "tiers r = []"
    using resolve_aws_backup_storage_public_shape [of e rc cur r]
    by (auto simp: public_shape_def)
next
  assume "resolve_s3_storage_public e rc sc cur = Inr r" and "error r \<noteq> None"
  then show "rate_per_gb_month r = None" "tiers r = []"
    using resolve_s3_storage_public_shape [of e rc sc cur r]
    by (auto simp: public_shape_def)
next
  assume "resolve_aws_backup_storage e rc cur client = Inr (r, evs)" and "error r \<noteq> None"
  then show "rate_per_gb_month r = None" "tiers r = []"
    using resolve_aws_backup_storage_shape [of e rc cur client r evs]
    by (auto simp: result_shape_def)
next
  assume "resolve_s3_storage e rc sc cur client = Inr (r, evs)" and "error r \<noteq> None"
  then show "rate_per_gb_month r = None" "tiers r = []"
    using resolve_s3_storage_shape [of e rc sc cur client r evs]
    by (auto simp: result_shape_def)
qed

text \<open>
  With no network and no credentials all four operations return an error, and
  neither a rate nor tiers.
\<close>

theorem error_excludes_rate_and_tiers_witness:
  "(\<exists>r. resolve_aws_backup_storage_public demo_offline ''us-east-1'' ''USD'' = Inr r
        \<and> error r = Some ''AWS Backup not in public price list. HTTP 404: Not Found''
        \<and> rate_per_gb_month r = None \<and> tiers r = [])
   \<and> (\<exists>r. resolve_s3_storage_public demo_offline ''us-east-1'' ''STANDARD'' ''USD'' = Inr r
        \<and> error r = Some ''Public price list (S3) unavailable. HTTP 404: Not Found''
        \<and> rate_per_gb_month r = None \<and> tiers r = [])
   \<and> (\<exists>r evs. resolve_aws_backup_storage demo_offline ''us-east-1'' ''USD'' None = Inr (r, evs)
        \<and> error r = Some ''AWS Backup not in public price list. HTTP 404: Not Found''
        \<and> rate_per_gb_month r = None \<and> tiers r = [])
   \<and> (\<exists>r evs. resolve_s3_storage demo_offline ''us-east-1'' ''STANDARD'' ''USD'' None
          = Inr (r, evs)
        \<and> error r = Some ''Public price list (S3) unavailable. HTTP 404: Not Found''
        \<and> rate_per_gb_month r = None \<and> tiers r = [])"
proof -
  have "case resolve_aws_backup_storage_public demo_offline ''us-east-1'' ''USD'' of
          Inr r \<Rightarrow> error r = Some ''AWS Backup not in public price list. HTTP 404: Not Found''
        | Inl ex \<Rightarrow> False"
    by code_simp
  then obtain r1 where
    r1: "resolve_aws_backup_storage_public demo_offline ''us-east-1'' ''USD'' = Inr r1"
      "error r1 = Some ''AWS Backup not in public price list. HTTP 404: Not Found''"
    by (auto split: sum.splits)
  have "case resolve_s3_storage_public demo_offline ''us-east-1'' ''STANDARD'' ''USD'' of
          Inr r \<Rightarrow> error r = Some ''Public price list (S3) unavailable. HTTP 404: Not Found''
        | Inl ex \<Rightarrow> False"
    by code_simp
  then obtain r2 where
    r2: "resolve_s3_storage_public demo_offline ''us-east-1'' ''STANDARD'' ''USD'' = Inr r2"
      "error r2 = Some ''Public price list (S3) unavailable. HTTP 404: Not Found''"
    by (auto split: sum.splits)
  have "case resolve_aws_backup_storage demo_offline ''us-east-1'' ''USD'' None of
          Inr (r, evs) \<Rightarrow>
            error r = Some ''AWS Backup not in public price list. HTTP 404: Not Found''
        | Inl ex \<Rightarrow> False"
    by code_simp
  then obtain r3 evs3 where
    r3: "resolve_aws_backup_storage demo_offline ''us-east-1'' ''USD'' None = Inr (r3, evs3)"
      "error r3 = Some ''AWS Backup not in public price list. HTTP 404: Not Found''"
    by (auto split: sum.splits prod.splits)
  have "case resolve_s3_storage demo_offline ''us-east-1'' ''STANDARD'' ''USD'' None of
          Inr (r, evs) \<Rightarrow>
            error r = Some ''Public price list (S3) unavailable. HTTP 404: Not Found''
        | Inl ex \<Rightarrow> False"
    by code_simp
  then obtain r4 evs4 where
    r4: "resolve_s3_storage demo_offline ''us-east-1'' ''STANDARD'' ''USD'' None = Inr (r4, evs4)"
      "error r4 = Some ''Public price list (S3) unavailable. HTTP 404: Not Found''"
    by (auto split: sum.splits prod.splits)
  from r1 r2 r3 r4
    error_excludes_rate_and_tiers [of demo_offline "''us-east-1''" "''USD''" r1]
    error_excludes_rate_and_tiers [of demo_offline "''us-east-1''" _ r2 "''STANDARD''" ]
    error_excludes_rate_and_tiers [of demo_offline "''us-east-1''" "''USD''" r3 _ None evs3]
    error_excludes_rate_and_tiers
      [of demo_offline "''us-east-1''" "''USD''" r4 "''STANDARD''" None evs4]
  show ?thesis by simp
qed

text \<open>
  Claim C5 (representation exclusivity). No \<^verbatim>\<open>PricingResult\<close> that one of the four
  operations returns has both a flat rate and a non-empty tier list.
\<close>

theorem rate_and_tiers_exclusive:
  "(resolve_aws_backup_storage_public e rc cur = Inr r
      \<longrightarrow> \<not> (rate_per_gb_month r \<noteq> None \<and> tiers r \<noteq> []))
   \<and> (resolve_s3_storage_public e rc sc cur = Inr r
      \<longrightarrow> \<not> (rate_per_gb_month r \<noteq> None \<and> tiers r \<noteq> []))
   \<and> (resolve_aws_backup_storage e rc cur client = Inr (r, evs)
      \<longrightarrow> \<not> (rate_per_gb_month r \<noteq> None \<and> tiers r \<noteq> []))
   \<and> (resolve_s3_storage e rc sc cur client = Inr (r, evs)
      \<longrightarrow> \<not> (rate_per_gb_month r \<noteq> None \<and> tiers r \<noteq> []))"
proof (intro conjI impI)
  assume "resolve_aws_backup_storage_public e rc cur = Inr r"
  then show "\<not> (rate_per_gb_month r \<noteq> None \<and> tiers r \<noteq> [])"
    using resolve_aws_backup_storage_public_shape [of e rc cur r] by simp
next
  assume "resolve_s3_storage_public e rc sc cur = Inr r"
  then show "\<not> (rate_per_gb_month r \<noteq> None \<and> tiers r \<noteq> [])"
    using resolve_s3_storage_public_shape [of e rc sc cur r]
    by (auto simp: public_shape_def)
next
  assume "resolve_aws_backup_storage e rc cur client = Inr (r, evs)"
  then show "\<not> (rate_per_gb_month r \<noteq> None \<and> tiers r \<noteq> [])"
    using resolve_aws_backup_storage_shape [of e rc cur client r evs] by simp
next
  assume "resolve_s3_storage e rc sc cur client = Inr (r, evs)"
  then show "\<not> (rate_per_gb_month r \<noteq> None \<and> tiers r \<noteq> [])"
    using resolve_s3_storage_shape [of e rc sc cur client r evs]
    by (auto simp: result_shape_def)
qed

text \<open>
  On the example document the Backup operations return a flat rate without tiers,
  the S3 operations two tiers without a flat rate.
\<close>

theorem rate_and_tiers_exclusive_witness:
  "(\<exists>r. resolve_aws_backup_storage_public demo_online ''us-east-1'' ''USD'' = Inr r
        \<and> rate_per_gb_month r = Some (Finite (4 / 100)) \<and> tiers r = [])
   \<and> (\<exists>r. resolve_s3_storage_public demo_online ''us-east-1'' ''STANDARD'' ''USD'' = Inr r
        \<and> rate_per_gb_month r = None
        \<and> tiers r = [build_tier_band (Finite 0) (Finite 51200) (Finite (5 / 100)),
                     build_tier_band (Finite 51200) PosInf (Finite (4 / 100))])
   \<and> (\<exists>r evs. resolve_aws_backup_storage demo_online ''us-east-1'' ''USD'' None = Inr (r, evs)
        \<and> rate_per_gb_month r = Some (Finite (4 / 100)) \<and> tiers r = [])
   \<and> (\<exists>r evs. resolve_s3_storage demo_online ''us-east-1'' ''STANDARD'' ''USD'' None
          = Inr (r, evs)
        \<and> rate_per_gb_month r = None
        \<and> tiers r = [build_tier_band (Finite 0) (Finite 51200) (Finite (5 / 100)),
                     build_tier_band (Finite 51200) PosInf (Finite (4 / 100))])"
proof -
  have "case resolve_aws_backup_storage_public demo_online ''us-east-1'' ''USD'' of
          Inr r \<Rightarrow> rate_per_gb_month r = Some (Finite (4 / 100))
        | Inl ex \<Rightarrow> False"
    by code_simp
  then obtain r1 where
    r1: "resolve_aws_backup_storage_public demo_online ''us-east-1'' ''USD'' = Inr r1"
      "rate_per_gb_month r1 = Some (Finite (4 / 100))"
    by (auto split: sum.splits)
  have "case resolve_s3_storage_public demo_online ''us-east-1'' ''STANDARD'' ''USD'' of
          Inr r \<Rightarrow>
            tiers r = [build_tier_band (Finite 0) (Finite 51200) (Finite (5 / 100)),
                       build_tier_band (Finite 51200) PosInf (Finite (4 / 100))]
        | Inl ex \<Rightarrow> False"
    by code_simp
  then obtain r2 where
    r2: "resolve_s3_storage_public demo_online ''us-east-1'' ''STANDARD'' ''USD'' = Inr r2"
      "tiers r2 = [build_tier_band (Finite 0) (Finite 51200) (Finite (5 / 100)),
                   build_tier_band (Finite 51200) PosInf (Finite (4 / 100))]"
    by (auto split: sum.splits)
  have "case resolve_aws_backup_storage demo_online ''us-east-1'' ''USD'' None of
          Inr (r, evs) \<Rightarrow> rate_per_gb_month r = Some (Finite (4 / 100))
        | Inl ex \<Rightarrow> False"
    by code_simp
  then obtain r3 evs3 where
    r3: "resolve_aws_backup_storage demo_online ''us-east-1'' ''USD'' None = Inr (r3, evs3)"
      "rate_per_gb_month r3 = Some (Finite (4 / 100))"
    by (auto split: sum.splits prod.splits)
  have "case resolve_s3_storage demo_online ''us-east-1'' ''STANDARD'' ''USD'' None of
          Inr (r, evs) \<Rightarrow>
            tiers r = [build_tier_band (Finite 0) (Finite 51200) (Finite (5 / 100)),
                       build_tier_band (Finite 51200) PosInf (Finite (4 / 100))]
        | Inl ex \<Rightarrow> False"
    by code_simp
  then obtain r4 evs4 where
    r4: "resolve_s3_storage demo_online ''us-east-1'' ''STANDARD'' ''USD'' None = Inr (r4, evs4)"
      "tiers r4 = [build_tier_band (Finite 0) (Finite 51200) (Finite (5 / 100)),
                   build_tier_band (Finite 51200) PosInf (Finite (4 / 100))]"
    by (auto split: sum.splits prod.splits)
  from r1 r2 r3 r4
    rate_and_tiers_exclusive [of demo_online "''us-east-1''" "''USD''" r1]
    rate_and_tiers_exclusive [of demo_online "''us-east-1''" _ r2 "''STANDARD''" ]
    rate_and_tiers_exclusive [of demo_online "''us-east-1''" "''USD''" r3 _ None evs3]
    rate_and_tiers_exclusive
      [of demo_online "''us-east-1''" "''USD''" r4 "''STANDARD''" None evs4]
  show ?thesis by (simp add: build_tier_band_def)
qed

end
